theory Spec2Isabelle
  imports Main
begin

section \<open>Data model\<close>

subsection \<open>Exceptions\<close>

text \<open>
  The exception classes that \<^verbatim>\<open>docker-poc.py\<close> raises, catches or lets pass. A raised
  exception carries its class and one string (the message, or \<^verbatim>\<open>strerror\<close> for the
  classes below \<^verbatim>\<open>OSError\<close>, or the missing key of a \<^verbatim>\<open>KeyError\<close>).
  \<^verbatim>\<open>sys.exit()\<close> raises \<^verbatim>\<open>SystemExit\<close>, which no \<^verbatim>\<open>except\<close> clause of
  \<^verbatim>\<open>main\<close> catches; it carries the exit status.
\<close>

datatype exn_class =
    OSError | FileNotFoundError | FileExistsError | IsADirectoryError | NotADirectoryError
  | ShutilError
  | SchemaValidationError | InvalidPartName
  | ValueError | JSONDecodeError
  | KeyError | IndexError | TypeError | AttributeError | RuntimeError | ReadError
  | YAMLError | DockerException

datatype exn = Raised exn_class string | SystemExit nat

text \<open>Python's class hierarchy, as far as the \<^verbatim>\<open>except\<close> clauses of \<^verbatim>\<open>main\<close> see it.\<close>

fun subclass_of_OSError :: "exn_class \<Rightarrow> bool" where
  "subclass_of_OSError OSError = True"
| "subclass_of_OSError FileNotFoundError = True"
| "subclass_of_OSError FileExistsError = True"
| "subclass_of_OSError IsADirectoryError = True"
| "subclass_of_OSError NotADirectoryError = True"
| "subclass_of_OSError ShutilError = True"
| "subclass_of_OSError _ = False"

fun subclass_of_ValueError :: "exn_class \<Rightarrow> bool" where
  "subclass_of_ValueError ValueError = True"
| "subclass_of_ValueError JSONDecodeError = True"
| "subclass_of_ValueError _ = False"

subsection \<open>Values, file contents, archives\<close>

text \<open>
  The values \<^verbatim>\<open>json.loads\<close> and \<^verbatim>\<open>yaml.safe_load\<close> return: \<^verbatim>\<open>None\<close>, booleans,
  numbers, strings, lists and dictionaries with string keys (kept as the list of their
  items; a key is looked up with \<open>map_of\<close>).
\<close>

datatype pyval =
    PNone | PBool bool | PNum int | PStr string | PList "pyval list"
  | PDict "(string \<times> pyval) list"

text \<open>
  The bytes of a file are kept by what they decode to: a JSON text (the value it parses
  to), a tar archive (its members in archive order, names may repeat), or anything else.
  A member is a regular file, a directory, a symbolic link with its target, or of
  another kind (a hard link to another member, a device, a fifo).
\<close>

datatype content = Raw string | Json pyval | Tar "(string \<times> member) list"
and member = Reg content | DirM | SymM string | OtherM

type_synonym tar = "(string \<times> member) list"

text \<open>
  A path the program names holds a file or a directory. What is below a directory is
  kept as a listing: every entry below it, the directories among them included, each
  under its path relative to the directory, the components joined by \<^verbatim>\<open>/\<close>.
\<close>

type_synonym listing = "(string \<times> member) list"

datatype node = FileN content | DirN listing

type_synonym fsys = "string \<rightharpoonup> node"

definition is_dir :: "fsys \<Rightarrow> string \<Rightarrow> bool" where
  "is_dir fs p = (case fs p of Some (DirN _) \<Rightarrow> True | _ \<Rightarrow> False)"

section \<open>The layer extractor\<close>

subsection \<open>The library calls it makes\<close>

text \<open>\<^verbatim>\<open>TarFile.getmember\<close>: the last member of that name, \<^verbatim>\<open>KeyError\<close> if there is none.\<close>

definition getmember :: "tar \<Rightarrow> string \<Rightarrow> exn + member" where
  "getmember ms name =
     (case map_of (rev ms) name of
        None \<Rightarrow> Inl (Raised KeyError name)
      | Some m \<Rightarrow> Inr m)"

text \<open>
  The standard library is modelled where its behaviour is plain, and taken from
  outside where it is not. Taken from outside are:
  \<^item> \<^verbatim>\<open>extractfile\<close> on a member that is a link or of another kind (the library follows
    links inside the archive);
  \<^item> the extraction of an entry that is not plain for the destination (see
    \<open>plain_entry\<close> below: a name with an empty, \<^verbatim>\<open>.\<close> or \<^verbatim>\<open>..\<close> component or an
    absolute name, a link or a special member, a path that is already taken): whether
    it raises, what the destination holds afterwards, and what it writes to other
    paths, as a function of the destination path, of the entry and of what the
    destination holds. An absent destination stays absent or becomes a directory, a
    directory stays a directory, a file stays that file;
  \<^item> for \<^verbatim>\<open>copytree\<close>, whether a symbolic link below the source resolves to a
    directory, and then which entries its copy puts below the link's name and which
    files of it could not be linked.
\<close>

record library =
  extractfile_special :: "tar \<Rightarrow> string \<Rightarrow> member \<Rightarrow> exn + content option"
  extract_absent ::
    "string \<Rightarrow> string \<times> member \<Rightarrow> (exn + unit) \<times> listing option \<times> (string \<times> node option) list"
  extract_dir ::
    "string \<Rightarrow> listing \<Rightarrow> string \<times> member \<Rightarrow> (exn + unit) \<times> listing \<times> (string \<times> node option) list"
  extract_file ::
    "string \<Rightarrow> string \<times> member \<Rightarrow> (exn + unit) \<times> (string \<times> node option) list"
  link_dir :: "fsys \<Rightarrow> string \<Rightarrow> string \<Rightarrow> string \<Rightarrow> (listing \<times> string list) option"

text \<open>
  \<^verbatim>\<open>TarFile.extractfile\<close>: a file object for a regular member, \<^verbatim>\<open>None\<close> for a
  directory, \<^verbatim>\<open>KeyError\<close> for a name the archive does not have. A member given as
  anything but a string is taken for a \<^verbatim>\<open>TarInfo\<close>, and the first method call on it
  raises \<^verbatim>\<open>AttributeError\<close>.
\<close>

definition extractfile :: "library \<Rightarrow> tar \<Rightarrow> pyval \<Rightarrow> exn + content option" where
  "extractfile lib ms member =
     (case member of
        PStr name \<Rightarrow>
          (case getmember ms name of
             Inl e \<Rightarrow> Inl e
           | Inr (Reg c) \<Rightarrow> Inr (Some c)
           | Inr DirM \<Rightarrow> Inr None
           | Inr m \<Rightarrow> extractfile_special lib ms name m)
      | _ \<Rightarrow> Inl (Raised AttributeError ''isreg''))"

text \<open>\<^verbatim>\<open>tarfile.open(fileobj=f)\<close>.\<close>

definition tarfile_open_fileobj :: "content option \<Rightarrow> exn + tar" where
  "tarfile_open_fileobj f =
     (case f of
        None \<Rightarrow> Inl (Raised ValueError ''nothing to open'')
      | Some (Tar ms) \<Rightarrow> Inr ms
      | Some _ \<Rightarrow> Inl (Raised ReadError ''file could not be opened successfully''))"

text \<open>\<^verbatim>\<open>tarfile.open(path)\<close> and \<^verbatim>\<open>open(path)\<close> for reading.\<close>

definition open_read :: "fsys \<Rightarrow> string \<Rightarrow> exn + content" where
  "open_read fs p =
     (case fs p of
        None \<Rightarrow> Inl (Raised FileNotFoundError ''No such file or directory'')
      | Some (DirN _) \<Rightarrow> Inl (Raised IsADirectoryError ''Is a directory'')
      | Some (FileN c) \<Rightarrow> Inr c)"

definition tarfile_open :: "fsys \<Rightarrow> string \<Rightarrow> exn + tar" where
  "tarfile_open fs p =
     (case open_read fs p of
        Inl e \<Rightarrow> Inl e
      | Inr c \<Rightarrow> tarfile_open_fileobj (Some c))"

text \<open>\<^verbatim>\<open>json.loads\<close>; \<^verbatim>\<open>JSONDecodeError\<close> is a \<^verbatim>\<open>ValueError\<close>.\<close>

definition json_loads :: "content \<Rightarrow> exn + pyval" where
  "json_loads c =
     (case c of
        Json v \<Rightarrow> Inr v
      | _ \<Rightarrow> Inl (Raised JSONDecodeError ''Expecting value''))"

text \<open>Subscripting a loaded value: \<^verbatim>\<open>v[0]\<close>, \<^verbatim>\<open>v[key]\<close> and \<^verbatim>\<open>v[-1]\<close>.\<close>

definition subscript_first :: "pyval \<Rightarrow> exn + pyval" where
  "subscript_first v =
     (case v of
        PList [] \<Rightarrow> Inl (Raised IndexError ''list index out of range'')
      | PList (x # _) \<Rightarrow> Inr x
      | PStr [] \<Rightarrow> Inl (Raised IndexError ''string index out of range'')
      | PStr (c # _) \<Rightarrow> Inr (PStr [c])
      | PDict _ \<Rightarrow> Inl (Raised KeyError ''0'')
      | _ \<Rightarrow> Inl (Raised TypeError ''object is not subscriptable''))"

definition subscript_key :: "pyval \<Rightarrow> string \<Rightarrow> exn + pyval" where
  "subscript_key v k =
     (case v of
        PDict items \<Rightarrow>
          (case map_of items k of
             None \<Rightarrow> Inl (Raised KeyError k)
           | Some x \<Rightarrow> Inr x)
      | PList _ \<Rightarrow> Inl (Raised TypeError ''list indices must be integers or slices, not str'')
      | PStr _ \<Rightarrow> Inl (Raised TypeError ''string indices must be integers'')
      | _ \<Rightarrow> Inl (Raised TypeError ''object is not subscriptable''))"

definition subscript_last :: "pyval \<Rightarrow> exn + pyval" where
  "subscript_last v =
     (case v of
        PList xs \<Rightarrow>
          (if xs = [] then Inl (Raised IndexError ''list index out of range'')
           else Inr (last xs))
      | PStr s \<Rightarrow>
          (if s = [] then Inl (Raised IndexError ''string index out of range'')
           else Inr (PStr [last s]))
      | PDict _ \<Rightarrow> Inl (Raised KeyError ''-1'')
      | _ \<Rightarrow> Inl (Raised TypeError ''object is not subscriptable''))"

subsection \<open>Paths below a directory\<close>

text \<open>The components of a name, split at every \<^verbatim>\<open>/\<close>.\<close>

fun split_path :: "string \<Rightarrow> string list" where
  "split_path [] = [[]]"
| "split_path (c # cs) =
     (if c = CHR ''/'' then [] # split_path cs
      else (case split_path cs of [] \<Rightarrow> [[c]] | x # xs \<Rightarrow> (c # x) # xs))"

text \<open>
  A clean name is relative and stays below the directory it is joined to: no
  component is empty (so it neither starts nor ends with \<^verbatim>\<open>/\<close>), \<^verbatim>\<open>.\<close> or \<^verbatim>\<open>..\<close>.
\<close>

definition clean_name :: "string \<Rightarrow> bool" where
  "clean_name n = list_all (\<lambda>c. c \<noteq> [] \<and> c \<noteq> ''.'' \<and> c \<noteq> ''..'') (split_path n)"

text \<open>The directories above a name: its prefixes that end before a \<^verbatim>\<open>/\<close>.\<close>

fun ancestors_from :: "string \<Rightarrow> string \<Rightarrow> string list" where
  "ancestors_from pre [] = []"
| "ancestors_from pre (c # cs) =
     (if c = CHR ''/'' then pre # ancestors_from (pre @ [c]) cs
      else ancestors_from (pre @ [c]) cs)"

definition ancestors :: "string \<Rightarrow> string list" where
  "ancestors n = ancestors_from [] n"

definition is_plain :: "member \<Rightarrow> bool" where
  "is_plain m = (case m of Reg _ \<Rightarrow> True | DirM \<Rightarrow> True | _ \<Rightarrow> False)"

text \<open>
  An entry is plain for a listing when its name is clean, it is a regular file or a
  directory, every directory above it is absent or a directory, and its own path is
  absent, or it is a directory and its path holds a directory already.
\<close>

definition plain_entry :: "listing \<Rightarrow> string \<times> member \<Rightarrow> bool" where
  "plain_entry d entry =
     (clean_name (fst entry) \<and> is_plain (snd entry)
      \<and> list_all (\<lambda>a. map_of d a = None \<or> map_of d a = Some DirM) (ancestors (fst entry))
      \<and> (map_of d (fst entry) = None
          \<or> (snd entry = DirM \<and> map_of d (fst entry) = Some DirM)))"

text \<open>
  Extracting a plain entry makes the directories above it that are missing
  (\<^verbatim>\<open>os.makedirs\<close>) and then the entry itself, unless it is a directory that is there.
\<close>

fun mkdirs :: "listing \<Rightarrow> string list \<Rightarrow> listing" where
  "mkdirs d [] = d"
| "mkdirs d (a # as) = mkdirs (if map_of d a = None then d @ [(a, DirM)] else d) as"

definition add_entry :: "listing \<Rightarrow> string \<times> member \<Rightarrow> listing" where
  "add_entry d entry =
     (if map_of (mkdirs d (ancestors (fst entry))) (fst entry) = None
      then mkdirs d (ancestors (fst entry)) @ [entry]
      else mkdirs d (ancestors (fst entry)))"

text \<open>What an entry that is not plain writes to other paths than the destination.\<close>

fun write_outside :: "string \<Rightarrow> (string \<times> node option) list \<Rightarrow> fsys \<Rightarrow> fsys" where
  "write_outside path [] fs = fs"
| "write_outside path ((p, v) # ws) fs =
     write_outside path ws (if p = path then fs else fs(p := v))"

text \<open>
  \<^verbatim>\<open>layer_tar.extract(entry, path=stage_dir)\<close> for one entry. For a plain entry the
  destination directory is made when it is missing and the entry is added to it. With
  a file where the destination should be, a regular file or directory of clean name
  raises \<^verbatim>\<open>NotADirectoryError\<close> and nothing is written. Everything else is taken from
  the library.
\<close>

definition tar_extract :: "library \<Rightarrow> string \<Rightarrow> string \<times> member \<Rightarrow> fsys \<Rightarrow> (exn + unit) \<times> fsys" where
  "tar_extract lib path entry fs =
     (case fs path of
        None \<Rightarrow>
          if plain_entry [] entry then (Inr (), fs(path \<mapsto> DirN (add_entry [] entry)))
          else (case extract_absent lib path entry of
                  (r, d', ws) \<Rightarrow> (r, (write_outside path ws fs)(path := map_option DirN d')))
      | Some (DirN d) \<Rightarrow>
          if plain_entry d entry then (Inr (), fs(path \<mapsto> DirN (add_entry d entry)))
          else (case extract_dir lib path d entry of
                  (r, d', ws) \<Rightarrow> (r, (write_outside path ws fs)(path \<mapsto> DirN d')))
      | Some (FileN c) \<Rightarrow>
          if clean_name (fst entry) \<and> is_plain (snd entry)
          then (Inl (Raised NotADirectoryError ''Not a directory''), fs)
          else (case extract_file lib path entry of
                  (r, ws) \<Rightarrow> (r, write_outside path ws fs)))"

subsection \<open>extract\_stage\_layer\<close>

text \<open>The loop \<^verbatim>\<open>for entry in layer_tar: layer_tar.extract(entry, path=stage_dir)\<close>.\<close>

fun extract_all :: "library \<Rightarrow> string \<Rightarrow> tar \<Rightarrow> fsys \<Rightarrow> (exn + unit) \<times> fsys" where
  "extract_all lib stage_dir [] fs = (Inr (), fs)"
| "extract_all lib stage_dir (entry # layer_tar) fs =
     (case tar_extract lib stage_dir entry fs of
        (Inl e, fs') \<Rightarrow> (Inl e, fs')
      | (Inr _, fs') \<Rightarrow> extract_all lib stage_dir layer_tar fs')"

text \<open>
  \<^verbatim>\<open>
  def extract_stage_layer(image_file, stage_dir):
      image = tarfile.open(image_file)
      manifest_file = image.extractfile("manifest.json")
      if not manifest_file:
          raise RuntimeError("docker image missing manifest file")
      manifest = json.loads(manifest_file.read())
      layer = manifest[0]["Layers"][-1]
      layer_tar = tarfile.open(fileobj=image.extractfile(layer))
      for entry in layer_tar:
          layer_tar.extract(entry, path=stage_dir)
  \<close>
  The first part, up to the opened layer, reads only; it gives the layer's entries or
  the exception.
\<close>

definition stage_layer_entries :: "library \<Rightarrow> fsys \<Rightarrow> string \<Rightarrow> exn + tar" where
  "stage_layer_entries lib fs image_file =
     (case tarfile_open fs image_file of
        Inl e \<Rightarrow> Inl e
      | Inr image_tar \<Rightarrow>
     (case extractfile lib image_tar (PStr ''manifest.json'') of
        Inl e \<Rightarrow> Inl e
      | Inr None \<Rightarrow> Inl (Raised RuntimeError ''docker image missing manifest file'')
      | Inr (Some manifest_file) \<Rightarrow>
     (case json_loads manifest_file of
        Inl e \<Rightarrow> Inl e
      | Inr manifest \<Rightarrow>
     (case subscript_first manifest of
        Inl e \<Rightarrow> Inl e
      | Inr entry0 \<Rightarrow>
     (case subscript_key entry0 ''Layers'' of
        Inl e \<Rightarrow> Inl e
      | Inr layers \<Rightarrow>
     (case subscript_last layers of
        Inl e \<Rightarrow> Inl e
      | Inr layer \<Rightarrow>
     (case extractfile lib image_tar layer of
        Inl e \<Rightarrow> Inl e
      | Inr f \<Rightarrow> tarfile_open_fileobj f)))))))"

definition extract_stage_layer :: "library \<Rightarrow> string \<Rightarrow> string \<Rightarrow> fsys \<Rightarrow> (exn + unit) \<times> fsys" where
  "extract_stage_layer lib image_file stage_dir fs =
     (case stage_layer_entries lib fs image_file of
        Inl e \<Rightarrow> (Inl e, fs)
      | Inr layer_tar \<Rightarrow> extract_all lib stage_dir layer_tar fs)"




section \<open>State of a run\<close>

text \<open>
  A run works on the file system and on the state of the lifecycle manager (of a type
  \<open>'l\<close> this program never looks into), and leaves a trace: what it printed and which
  calls it made to the container engine and to the lifecycle manager.
\<close>

datatype step = PULL | BUILD | STAGE | PRIME

datatype action_type = RUN | RERUN | SKIP | UPDATE

record action =
  part_name :: string
  step :: step
  type :: action_type
  reason :: "string option"

datatype event =
    Print string | PrintErr string
  | ImagesBuild string string | ImageSave string
  | LfNew pyval | LfGetStagePackages | LfResolvePackageDependencies "string list"
  | LfGetStateAssets string step
  | LfClean "step option" "string list option" | LfReloadState | LfUpdate
  | LfPlan step "string list"
  | CtxEnter | CtxExecute action | CtxExit

record 'l world =
  files :: fsys
  lcm :: 'l
  trace :: "event list"

type_synonym ('l, 'a) prog = "'l world \<Rightarrow> (exn + 'a) \<times> 'l world"

definition returnM :: "'a \<Rightarrow> ('l, 'a) prog" where
  "returnM x w = (Inr x, w)"

definition raiseM :: "exn \<Rightarrow> ('l, 'a) prog" where
  "raiseM e w = (Inl e, w)"

definition bindM :: "('l, 'a) prog \<Rightarrow> ('a \<Rightarrow> ('l, 'b) prog) \<Rightarrow> ('l, 'b) prog" where
  "bindM m f w = (case m w of (Inl e, w') \<Rightarrow> (Inl e, w') | (Inr x, w') \<Rightarrow> f x w')"

definition emit :: "event \<Rightarrow> ('l, unit) prog" where
  "emit ev w = (Inr (), w\<lparr>trace := trace w @ [ev]\<rparr>)"

definition liftE :: "exn + 'a \<Rightarrow> ('l, 'a) prog" where
  "liftE r w = (r, w)"

definition on_fs :: "(fsys \<Rightarrow> (exn + 'a) \<times> fsys) \<Rightarrow> ('l, 'a) prog" where
  "on_fs f w = (case f (files w) of (r, fs') \<Rightarrow> (r, w\<lparr>files := fs'\<rparr>))"

text \<open>
  A call that only asks the lifecycle manager (it reads the manager's state and the
  file system and may raise), and a call that may change both.
\<close>

type_synonym ('l, 'a) query = "'l \<Rightarrow> fsys \<Rightarrow> exn + 'a"

type_synonym 'l command = "'l \<Rightarrow> fsys \<Rightarrow> (exn + unit) \<times> 'l \<times> fsys"

definition ask :: "event \<Rightarrow> ('l, 'a) query \<Rightarrow> ('l, 'a) prog" where
  "ask ev q w = (q (lcm w) (files w), w\<lparr>trace := trace w @ [ev]\<rparr>)"

definition call :: "event \<Rightarrow> 'l command \<Rightarrow> ('l, unit) prog" where
  "call ev c w =
     (case c (lcm w) (files w) of
        (r, l', fs') \<Rightarrow> (r, \<lparr>files = fs', lcm = l', trace = trace w @ [ev]\<rparr>))"

section \<open>The stage materializer\<close>

definition LAYER_DIR :: string where
  "LAYER_DIR = ''layer''"

record project_info =
  series :: string
  stage_dir :: string
  prime_dir :: string
  image_name :: string

text \<open>
  What the hook takes from outside: the package collection of the parts, in the order
  in which it is iterated; the container engine (\<^verbatim>\<open>docker.from_env\<close>, \<^verbatim>\<open>images.build\<close>
  giving an image, \<^verbatim>\<open>image.save\<close> giving the bytes of the archive); and whether
  \<^verbatim>\<open>os.link\<close> works from one tree to another (it does not across file systems); and
  the library, where it is taken from outside.
  The parts are of a type \<open>'p\<close> the hook never looks into.
\<close>

record 'p env =
  stage_packages_from_parts :: "'p list \<Rightarrow> string list"
  from_env :: "exn option"
  images_build :: "string \<Rightarrow> string \<Rightarrow> exn + string"
  image_save :: "string \<Rightarrow> exn + content"
  os_link_ok :: "string \<Rightarrow> string \<Rightarrow> bool"
  lib :: library

text \<open>\<^verbatim>\<open>sep.join(xs)\<close>.\<close>

fun join :: "string \<Rightarrow> string list \<Rightarrow> string" where
  "join sep [] = []"
| "join sep [x] = x"
| "join sep (x # y # ys) = x @ sep @ join sep (y # ys)"

text \<open>
  The build description, after \<^verbatim>\<open>textwrap.dedent\<close> took the indentation of the literal
  away (for a series and names without line breaks):
  \<^verbatim>\<open>
  FROM ubuntu:{project_info.series}
  RUN apt update && apt install {" ".join(list(stage_packages))}
  \<close>
\<close>

definition dockerfile :: "string \<Rightarrow> string list \<Rightarrow> string" where
  "dockerfile series' stage_packages =
     ''FROM ubuntu:'' @ series' @ [CHR 0x0A] @
     ''RUN apt update && apt install '' @ join '' '' stage_packages @ [CHR 0x0A]"

text \<open>\<^verbatim>\<open>with open(path, "wb") as f: f.write(...)\<close>.\<close>

definition write_file :: "string \<Rightarrow> content \<Rightarrow> fsys \<Rightarrow> (exn + unit) \<times> fsys" where
  "write_file p c fs =
     (case fs p of
        Some (DirN _) \<Rightarrow> (Inl (Raised IsADirectoryError ''Is a directory''), fs)
      | _ \<Rightarrow> (Inr (), fs(p \<mapsto> FileN c)))"

text \<open>
  \<^verbatim>\<open>shutil.copytree(src, dst, copy_function=os.link)\<close>: the source is listed (it must be
  a directory), the destination is created (it must not exist), every directory of the
  source is created again and every other entry is hard-linked, a symbolic link too
  (the new name is a link with the same target), unless the link resolves to a
  directory: that directory is then copied below the link's name. A hard link that
  fails is noted and the copy goes on; at the end the noted failures are raised
  together as \<^verbatim>\<open>shutil.Error\<close>, which is an \<^verbatim>\<open>OSError\<close>.
\<close>

fun copy_entries ::
  "bool \<Rightarrow> (string \<Rightarrow> string \<Rightarrow> (listing \<times> string list) option) \<Rightarrow> listing
    \<Rightarrow> listing \<times> string list" where
  "copy_entries link_ok resolve [] = ([], [])"
| "copy_entries link_ok resolve ((n, m) # es) =
     (case copy_entries link_ok resolve es of
        (d, errors) \<Rightarrow>
          (case m of
             DirM \<Rightarrow> ((n, DirM) # d, errors)
           | SymM t \<Rightarrow>
               (case resolve n t of
                  Some (below, failed) \<Rightarrow> ((n, DirM) # below @ d, failed @ errors)
                | None \<Rightarrow> if link_ok then ((n, SymM t) # d, errors) else (d, n # errors))
           | _ \<Rightarrow> if link_ok then ((n, m) # d, errors) else (d, n # errors)))"

definition copytree ::
  "library \<Rightarrow> (string \<Rightarrow> string \<Rightarrow> bool) \<Rightarrow> string \<Rightarrow> string \<Rightarrow> fsys \<Rightarrow> (exn + unit) \<times> fsys" where
  "copytree l link_ok src dst fs =
     (case fs src of
        None \<Rightarrow> (Inl (Raised FileNotFoundError ''No such file or directory''), fs)
      | Some (FileN _) \<Rightarrow> (Inl (Raised NotADirectoryError ''Not a directory''), fs)
      | Some (DirN entries) \<Rightarrow>
          (case fs dst of
             Some _ \<Rightarrow> (Inl (Raised FileExistsError ''File exists''), fs)
           | None \<Rightarrow>
               (case copy_entries (link_ok src dst) (link_dir l fs src) entries of
                  (d, errors) \<Rightarrow>
                    (if errors = [] then Inr ()
                     else Inl (Raised ShutilError (join '', '' errors)),
                     fs(dst \<mapsto> DirN d)))))"

text \<open>
  \<^verbatim>\<open>
  def build_stage_layer(project_info, part_list):
      if not _LAYER_DIR.is_dir():
          print("Create stage layer")
          stage_packages = craft_parts.stage_packages_from_parts(part_list)
          dockerfile = textwrap.dedent(...).encode()
          client = docker.from_env()
          image, logs = client.images.build(tag="craft-parts-stage", fileobj=BytesIO(dockerfile))
          image_data = image.save(named=True)
          with open("image_data.tar", "wb") as f:
              for chunk in image_data:
                  f.write(chunk)
          print("Unpack stage layer")
          extract_stage_layer(Path("image_data.tar"), _LAYER_DIR)
          shutil.copytree(_LAYER_DIR, project_info.stage_dir, copy_function=os.link)
          shutil.copytree(_LAYER_DIR, project_info.prime_dir, copy_function=os.link)
      else:
          print("Using existing stage layer")
  \<close>
\<close>

definition build_stage_layer :: "'p env \<Rightarrow> project_info \<Rightarrow> 'p list \<Rightarrow> ('l, unit) prog" where
  "build_stage_layer env project_info part_list =
     (\<lambda>w.
       (if \<not> is_dir (files w) LAYER_DIR then
          bindM (emit (Print ''Create stage layer'')) (\<lambda>_.
          let stage_packages = stage_packages_from_parts env part_list;
              dockerfile' = dockerfile (series project_info) stage_packages
          in
          bindM (liftE (case from_env env of Some e \<Rightarrow> Inl e | None \<Rightarrow> Inr ())) (\<lambda>_.
          bindM (emit (ImagesBuild ''craft-parts-stage'' dockerfile')) (\<lambda>_.
          bindM (liftE (images_build env ''craft-parts-stage'' dockerfile')) (\<lambda>image'.
          bindM (emit (ImageSave image')) (\<lambda>_.
          bindM (liftE (image_save env image')) (\<lambda>image_data.
          bindM (on_fs (write_file ''image_data.tar'' image_data)) (\<lambda>_.
          bindM (emit (Print ''Unpack stage layer'')) (\<lambda>_.
          bindM (on_fs (extract_stage_layer (lib env) ''image_data.tar'' LAYER_DIR)) (\<lambda>_.
          bindM (on_fs (copytree (lib env) (os_link_ok env) LAYER_DIR (stage_dir project_info))) (\<lambda>_.
          on_fs (copytree (lib env) (os_link_ok env) LAYER_DIR (prime_dir project_info))))))))))))
        else
          emit (Print ''Using existing stage layer'')) w)"

section \<open>The pipeline driver\<close>

subsection \<open>Action messages\<close>

text \<open>The table \<^verbatim>\<open>msg\<close> of \<^verbatim>\<open>_action_message\<close>: one dictionary for each step.\<close>

definition msg :: "step \<Rightarrow> (action_type \<times> string) list" where
  "msg s =
     (case s of
        PULL \<Rightarrow> [(RUN, ''Pull''), (RERUN, ''Repull''), (SKIP, ''Skip pull''),
                 (UPDATE, ''Update sources for'')]
      | BUILD \<Rightarrow> [(RUN, ''Build''), (RERUN, ''Rebuild''), (SKIP, ''Skip build''),
                  (UPDATE, ''Update build for'')]
      | STAGE \<Rightarrow> [(RUN, ''Stage''), (RERUN, ''Restage''), (SKIP, ''Skip stage'')]
      | PRIME \<Rightarrow> [(RUN, ''Prime''), (RERUN, ''Re-prime''), (SKIP, ''Skip prime'')])"

definition repr_action_type :: "action_type \<Rightarrow> string" where
  "repr_action_type t =
     (case t of RUN \<Rightarrow> ''ActionType.RUN'' | RERUN \<Rightarrow> ''ActionType.RERUN''
      | SKIP \<Rightarrow> ''ActionType.SKIP'' | UPDATE \<Rightarrow> ''ActionType.UPDATE'')"

text \<open>\<^verbatim>\<open>msg[a.step][a.type]\<close>.\<close>

definition msg_lookup :: "action \<Rightarrow> exn + string" where
  "msg_lookup a =
     (case map_of (msg (step a)) (type a) of
        None \<Rightarrow> Inl (Raised KeyError (repr_action_type (type a)))
      | Some m \<Rightarrow> Inr m)"

text \<open>
  \<^verbatim>\<open>
  if a.reason:
      return f"{msg[a.step][a.type]} {a.part_name} ({a.reason})"
  return f"{msg[a.step][a.type]} {a.part_name}"
  \<close>
  A reason that is \<^verbatim>\<open>None\<close> or the empty string is false.
\<close>

definition action_message :: "action \<Rightarrow> exn + string" where
  "action_message a =
     (if (case reason a of None \<Rightarrow> False | Some r \<Rightarrow> r \<noteq> []) then
        (case msg_lookup a of
           Inl e \<Rightarrow> Inl e
         | Inr m \<Rightarrow> Inr (m @ '' '' @ part_name a @ '' ('' @ the (reason a) @ '')''))
      else
        (case msg_lookup a of
           Inl e \<Rightarrow> Inl e
         | Inr m \<Rightarrow> Inr (m @ '' '' @ part_name a)))"

definition parse_step :: "string \<Rightarrow> step" where
  "parse_step name =
     (case map_of [(''pull'', PULL), (''build'', BUILD), (''stage'', STAGE), (''prime'', PRIME)] name of
        Some s \<Rightarrow> s
      | None \<Rightarrow> PRIME)"

subsection \<open>Options and collaborators\<close>

text \<open>
  The namespace \<^verbatim>\<open>_parse_arguments\<close> returns. \<^verbatim>\<open>command\<close> is \<^verbatim>\<open>None\<close> when no
  subcommand was given, and then the namespace has no \<^verbatim>\<open>parts\<close> either.
\<close>

record options =
  "file" :: string
  update :: bool
  plan_only :: bool
  command :: "string option"
  parts :: "string list option"

text \<open>
  The driver's collaborators: \<^verbatim>\<open>yaml.safe_load\<close> and the methods of the lifecycle
  manager \<^verbatim>\<open>lf\<close>. \<^verbatim>\<open>lf_ctx_enter\<close> and \<^verbatim>\<open>lf_ctx_exit\<close> are the entry and the exit of
  \<^verbatim>\<open>lf.execution_context()\<close>, \<^verbatim>\<open>lf_execute\<close> is \<^verbatim>\<open>ctx.execute\<close>. The hooks registered
  with \<^verbatim>\<open>register_prologue\<close> and \<^verbatim>\<open>register_epilogue\<close> are run by the lifecycle
  manager inside these calls.
\<close>

record 'l lifecycle =
  safe_load :: "content \<Rightarrow> exn + pyval"
  lf_new :: "pyval \<Rightarrow> 'l command"
  lf_get_stage_packages :: "('l, string list) query"
  lf_resolve_package_dependencies :: "string list \<Rightarrow> ('l, string list) query"
  lf_get_state_assets :: "string \<Rightarrow> step \<Rightarrow> ('l, string list) query"
  lf_clean :: "step option \<Rightarrow> string list option \<Rightarrow> 'l command"
  lf_reload_state :: "'l command"
  lf_update :: "'l command"
  lf_plan :: "step \<Rightarrow> string list \<Rightarrow> ('l, action list) query"
  lf_ctx_enter :: "'l command"
  lf_execute :: "action \<Rightarrow> 'l command"
  lf_ctx_exit :: "'l command"

text \<open>\<^verbatim>\<open>if _LAYER_DIR.is_dir(): shutil.rmtree(_LAYER_DIR)\<close>.\<close>

definition rmtree_layer :: "('l, unit) prog" where
  "rmtree_layer w =
     (if is_dir (files w) LAYER_DIR then (Inr (), w\<lparr>files := (files w)(LAYER_DIR := None)\<rparr>)
      else (Inr (), w))"

subsection \<open>\_do\_step and \_do\_clean\<close>

text \<open>
  The loop of the plan-only branch: it prints the message of every action that is not
  a skip and returns \<^verbatim>\<open>printed\<close>.
\<close>

fun print_plan :: "action list \<Rightarrow> bool \<Rightarrow> ('l, bool) prog" where
  "print_plan [] printed = returnM printed"
| "print_plan (a # actions) printed =
     (if type a \<noteq> SKIP then
        bindM (liftE (action_message a)) (\<lambda>m.
        bindM (emit (Print m)) (\<lambda>_.
        print_plan actions True))
      else print_plan actions printed)"

text \<open>The loop inside the execution context.\<close>

fun execute_plan :: "'l lifecycle \<Rightarrow> action list \<Rightarrow> ('l, unit) prog" where
  "execute_plan lf [] = returnM ()"
| "execute_plan lf (a # actions) =
     (if type a \<noteq> SKIP then
        bindM (liftE (action_message a)) (\<lambda>m.
        bindM (emit (Print (''Execute: '' @ m))) (\<lambda>_.
        bindM (call (CtxExecute a) (lf_execute lf a)) (\<lambda>_.
        execute_plan lf actions)))
      else execute_plan lf actions)"

text \<open>
  \<^verbatim>\<open>with lf.execution_context() as ctx: body\<close>: the exit runs on every way out of the
  body; an exception of the body goes on after it, unless the exit raises itself.
\<close>

definition with_execution_context :: "'l lifecycle \<Rightarrow> ('l, unit) prog \<Rightarrow> ('l, unit) prog" where
  "with_execution_context lf body =
     bindM (call CtxEnter (lf_ctx_enter lf)) (\<lambda>_ w.
       case body w of
         (r, w') \<Rightarrow>
           (case call CtxExit (lf_ctx_exit lf) w' of
              (Inl e, w'') \<Rightarrow> (Inl e, w'')
            | (Inr _, w'') \<Rightarrow> (r, w'')))"

text \<open>
  \<^verbatim>\<open>
  def _do_step(lf, options):
      target_step = _parse_step(options.command) if options.command else Step.PRIME
      part_names = vars(options).get("parts", [])
      if options.update:
          lf.update()
      actions = lf.plan(target_step, part_names)
      if options.plan_only:
          printed = False
          for a in actions:
              if a.type != ActionType.SKIP:
                  print(_action_message(a))
                  printed = True
          if not printed:
              print("No actions to execute.")
          sys.exit()
      with lf.execution_context() as ctx:
          for a in actions:
              if a.type != ActionType.SKIP:
                  print(f"Execute: {_action_message(a)}")
                  ctx.execute(a)
  \<close>
\<close>

definition target_step :: "options \<Rightarrow> step" where
  "target_step options =
     (case command options of
        None \<Rightarrow> PRIME
      | Some c \<Rightarrow> if c \<noteq> [] then parse_step c else PRIME)"

definition part_names :: "options \<Rightarrow> string list" where
  "part_names options = (case parts options of None \<Rightarrow> [] | Some ps \<Rightarrow> ps)"

definition do_step :: "'l lifecycle \<Rightarrow> options \<Rightarrow> ('l, unit) prog" where
  "do_step lf options =
     bindM (if update options then call LfUpdate (lf_update lf) else returnM ()) (\<lambda>_.
     bindM (ask (LfPlan (target_step options) (part_names options))
              (lf_plan lf (target_step options) (part_names options))) (\<lambda>actions.
     if plan_only options then
       bindM (print_plan actions False) (\<lambda>printed.
       bindM (if \<not> printed then emit (Print ''No actions to execute.'') else returnM ()) (\<lambda>_.
       raiseM (SystemExit 0)))
     else
       with_execution_context lf (execute_plan lf actions)))"

text \<open>
  \<^verbatim>\<open>
  def _do_clean(lf, options):
      if options.plan_only:
          raise ValueError("Clean operations cannot be planned.")
      if not options.parts:
          print("Clean all parts.")
      lf.clean(None, options.parts)
      if _LAYER_DIR.is_dir():
          shutil.rmtree(_LAYER_DIR)
  \<close>
  \<^verbatim>\<open>options.parts\<close> of a namespace without that attribute raises \<^verbatim>\<open>AttributeError\<close>.
\<close>

definition do_clean :: "'l lifecycle \<Rightarrow> options \<Rightarrow> ('l, unit) prog" where
  "do_clean lf options =
     (if plan_only options then raiseM (Raised ValueError ''Clean operations cannot be planned.'')
      else
        (case parts options of
           None \<Rightarrow> raiseM (Raised AttributeError ''parts'')
         | Some ps \<Rightarrow>
             bindM (if ps = [] then emit (Print ''Clean all parts.'') else returnM ()) (\<lambda>_.
             bindM (call (LfClean None (Some ps)) (lf_clean lf None (Some ps))) (\<lambda>_.
             rmtree_layer))))"

subsection \<open>process\_parts and main\<close>

text \<open>
  The three blocks of \<^verbatim>\<open>process_parts\<close>. First the parts file is read and the
  lifecycle manager made:
  \<^verbatim>\<open>
  with open(options.file) as f:
      part_data = yaml.safe_load(f)
  lf = craft_parts.LifecycleManager(part_data, ...)
  \<close>
\<close>

definition load_parts :: "'l lifecycle \<Rightarrow> options \<Rightarrow> ('l, unit) prog" where
  "load_parts lf options =
     bindM (\<lambda>w. (open_read (files w) (file options), w)) (\<lambda>f.
     bindM (liftE (safe_load lf f)) (\<lambda>part_data.
     call (LfNew part_data) (lf_new lf part_data)))"

text \<open>
  Then the package check:
  \<^verbatim>\<open>
  stage_packages = lf.get_stage_packages()
  stage_deps = lf.resolve_package_dependencies(stage_packages)
  state_stage_deps = lf.get_state_assets("stage-packages", step=Step.PULL)
  if set(stage_deps) != set(state_stage_deps):
      lf.clean(Step.PULL)
      lf.reload_state()
      if _LAYER_DIR.is_dir():
          shutil.rmtree(_LAYER_DIR)
  \<close>
\<close>

definition check_stage_packages :: "'l lifecycle \<Rightarrow> ('l, unit) prog" where
  "check_stage_packages lf =
     bindM (ask LfGetStagePackages (lf_get_stage_packages lf)) (\<lambda>stage_packages.
     bindM (ask (LfResolvePackageDependencies stage_packages)
              (lf_resolve_package_dependencies lf stage_packages)) (\<lambda>stage_deps.
     bindM (ask (LfGetStateAssets ''stage-packages'' PULL)
              (lf_get_state_assets lf ''stage-packages'' PULL)) (\<lambda>state_stage_deps.
     if set stage_deps \<noteq> set state_stage_deps then
       bindM (call (LfClean (Some PULL) None) (lf_clean lf (Some PULL) None)) (\<lambda>_.
       bindM (call LfReloadState (lf_reload_state lf)) (\<lambda>_.
       rmtree_layer))
     else returnM ())))"

text \<open>
  Then the command:
  \<^verbatim>\<open>
  command = options.command if options.command else "prime"
  if command == "clean":
      _do_clean(lf, options)
      sys.exit()
  _do_step(lf, options)
  \<close>
\<close>

definition command_name :: "options \<Rightarrow> string" where
  "command_name options =
     (case command options of
        None \<Rightarrow> ''prime''
      | Some c \<Rightarrow> if c \<noteq> [] then c else ''prime'')"

definition run_command :: "'l lifecycle \<Rightarrow> options \<Rightarrow> ('l, unit) prog" where
  "run_command lf options =
     (if command_name options = ''clean'' then
        bindM (do_clean lf options) (\<lambda>_. raiseM (SystemExit 0))
      else do_step lf options)"

definition process_parts :: "'l lifecycle \<Rightarrow> options \<Rightarrow> ('l, unit) prog" where
  "process_parts lf options =
     bindM (load_parts lf options) (\<lambda>_.
     bindM (check_stage_packages lf) (\<lambda>_.
     run_command lf options))"

text \<open>
  \<^verbatim>\<open>
  def main():
      options = _parse_arguments()
      try:
          process_parts(options)
      except OSError as err:
          print(f"Error: {err.strerror}.", file=sys.stderr)
          sys.exit(1)
      except craft_parts.errors.SchemaValidationError:
          print("Error: invalid parts specification.", file=sys.stderr)
          sys.exit(2)
      except craft_parts.errors.InvalidPartName as err:
          print(f"Error: {err}", file=sys.stderr)
          sys.exit(3)
      except ValueError as err:
          print(f"Error: {err}", file=sys.stderr)
          sys.exit(4)
  \<close>
  The result is the exit status of the process. \<^verbatim>\<open>SystemExit\<close> passes every clause and
  gives its own status; any other exception that no clause catches ends the
  interpreter with a traceback and status 1. The first clause that matches wins.
\<close>

definition handle_error :: "exn \<Rightarrow> nat \<times> event list" where
  "handle_error e =
     (case e of
        SystemExit status \<Rightarrow> (status, [])
      | Raised c m \<Rightarrow>
          if subclass_of_OSError c then (1, [PrintErr (''Error: '' @ m @ ''.'')])
          else if c = SchemaValidationError then (2, [PrintErr ''Error: invalid parts specification.''])
          else if c = InvalidPartName then (3, [PrintErr (''Error: '' @ m)])
          else if subclass_of_ValueError c then (4, [PrintErr (''Error: '' @ m)])
          else (1, [PrintErr (''Traceback (most recent call last): '' @ m)]))"

definition main :: "'l lifecycle \<Rightarrow> options \<Rightarrow> 'l world \<Rightarrow> nat \<times> 'l world" where
  "main lf options w =
     (case process_parts lf options w of
        (Inr _, w') \<Rightarrow> (0, w')
      | (Inl e, w') \<Rightarrow>
          (case handle_error e of
             (status, out) \<Rightarrow> (status, w'\<lparr>trace := trace w' @ out\<rparr>)))"

text \<open>The actions a trace shows as executed, in order.\<close>

fun executed :: "event list \<Rightarrow> action list" where
  "executed [] = []"
| "executed (CtxExecute a # evs) = a # executed evs"
| "executed (_ # evs) = executed evs"

text \<open>How often a trace shows the call \<^verbatim>\<open>lf.clean(Step.PULL)\<close>.\<close>

definition pull_cleans :: "event list \<Rightarrow> nat" where
  "pull_cleans tr = count_list tr (LfClean (Some PULL) None)"

text \<open>
  The file system a cache miss of \<^verbatim>\<open>build_stage_layer\<close> leaves, as a function of the
  file system it starts from: what the engine exports, and then the writing of the
  archive, the extraction and the two copies, each stopping the rest when it raises.
\<close>

definition engine_data :: "'p env \<Rightarrow> project_info \<Rightarrow> 'p list \<Rightarrow> exn + content" where
  "engine_data env info part_list =
     (case from_env env of Some e \<Rightarrow> Inl e | None \<Rightarrow>
      (case images_build env ''craft-parts-stage''
              (dockerfile (series info) (stage_packages_from_parts env part_list)) of
         Inl e \<Rightarrow> Inl e
       | Inr image' \<Rightarrow> image_save env image'))"

definition unpack_and_copy :: "'p env \<Rightarrow> project_info \<Rightarrow> content \<Rightarrow> fsys \<Rightarrow> fsys" where
  "unpack_and_copy env info image_data fs =
     (case write_file ''image_data.tar'' image_data fs of
         (Inl e, fs1) \<Rightarrow> fs1
       | (Inr _, fs1) \<Rightarrow>
      (case extract_stage_layer (lib env) ''image_data.tar'' LAYER_DIR fs1 of
         (Inl e, fs2) \<Rightarrow> fs2
       | (Inr _, fs2) \<Rightarrow>
      (case copytree (lib env) (os_link_ok env) LAYER_DIR (stage_dir info) fs2 of
         (Inl e, fs3) \<Rightarrow> fs3
       | (Inr _, fs3) \<Rightarrow> snd (copytree (lib env) (os_link_ok env) LAYER_DIR (prime_dir info) fs3))))"

definition miss_files :: "'p env \<Rightarrow> project_info \<Rightarrow> 'p list \<Rightarrow> fsys \<Rightarrow> fsys" where
  "miss_files env info part_list fs =
     (case engine_data env info part_list of
        Inl e \<Rightarrow> fs
      | Inr image_data \<Rightarrow> unpack_and_copy env info image_data fs)"

section \<open>Sample inputs\<close>

text \<open>
  An exported image with two manifest entries; the first lists three layers. Each
  layer holds a directory and one file of its own.
\<close>

definition sample_layer :: "string \<Rightarrow> content" where
  "sample_layer n = Tar [(''etc'', DirM), (''etc/'' @ n, Reg (Raw n))]"

definition sample_image :: tar where
  "sample_image =
     [(''manifest.json'', Reg (Json (PList
         [PDict [(''Config'', PStr ''c.json''),
                 (''Layers'', PList [PStr ''L0/layer.tar'', PStr ''L1/layer.tar'', PStr ''L2/layer.tar''])],
          PDict [(''Layers'', PList [PStr ''L3/layer.tar''])]]))),
      (''L0/layer.tar'', Reg (sample_layer ''zero'')),
      (''L1/layer.tar'', Reg (sample_layer ''one'')),
      (''L2/layer.tar'', Reg (sample_layer ''two'')),
      (''L3/layer.tar'', Reg (sample_layer ''three''))]"

text \<open>
  A small lifecycle manager for the examples. Its state is the package list recorded
  by the last pull; the parts ask for \<^verbatim>\<open>curl\<close> and \<^verbatim>\<open>git\<close>; cleaning forgets the
  recorded list and running the pull step records it again.
\<close>

definition sample_plan :: "action list" where
  "sample_plan =
     [\<lparr>part_name = ''foo'', step = PULL, type = SKIP, reason = Some ''already ran''\<rparr>,
      \<lparr>part_name = ''foo'', step = BUILD, type = UPDATE, reason = Some ''source changed''\<rparr>,
      \<lparr>part_name = ''foo'', step = PRIME, type = RUN, reason = None\<rparr>]"

definition sample_lf :: "string list lifecycle" where
  "sample_lf =
     \<lparr>safe_load = (\<lambda>c. case c of Raw _ \<Rightarrow> Inr (PDict []) | _ \<Rightarrow> Inl (Raised YAMLError ''not yaml'')),
      lf_new = (\<lambda>part_data l fs. (Inr (), l, fs)),
      lf_get_stage_packages = (\<lambda>l fs. Inr [''curl'', ''git'']),
      lf_resolve_package_dependencies = (\<lambda>ps l fs. Inr ps),
      lf_get_state_assets = (\<lambda>k s l fs. Inr l),
      lf_clean = (\<lambda>s ps l fs. (Inr (), [], fs)),
      lf_reload_state = (\<lambda>l fs. (Inr (), l, fs)),
      lf_update = (\<lambda>l fs. (Inr (), l, fs)),
      lf_plan = (\<lambda>s ps l fs. Inr sample_plan),
      lf_ctx_enter = (\<lambda>l fs. (Inr (), l, fs)),
      lf_execute = (\<lambda>a l fs. (Inr (), if step a = PULL then [''curl'', ''git''] else l, fs)),
      lf_ctx_exit = (\<lambda>l fs. (Inr (), l, fs))\<rparr>"

definition sample_options :: options where
  "sample_options =
     \<lparr>file = ''parts.yaml'', update = False, plan_only = False, command = Some ''prime'',
      parts = Some []\<rparr>"

definition sample_world :: "string list world" where
  "sample_world =
     \<lparr>files = [''parts.yaml'' \<mapsto> FileN (Raw ''parts''),
               ''layer'' \<mapsto> DirN [(''etc'', DirM), (''etc/two'', Reg (Raw ''two''))]],
      lcm = [''git'', ''curl''],
      trace = []\<rparr>"

text \<open>
  A library that raises on everything taken from outside and resolves no link to a
  directory; an engine that builds and exports \<open>sample_image\<close>, with hard links
  supported; and the project directories.
\<close>

definition sample_library :: library where
  "sample_library =
     \<lparr>extractfile_special = (\<lambda>ms name m. Inl (Raised KeyError name)),
      extract_absent = (\<lambda>path entry. (Inl (Raised OSError ''Operation not permitted''), None, [])),
      extract_dir = (\<lambda>path d entry. (Inl (Raised OSError ''Operation not permitted''), d, [])),
      extract_file = (\<lambda>path entry. (Inl (Raised OSError ''Operation not permitted''), [])),
      link_dir = (\<lambda>fs src n t. None)\<rparr>"

definition sample_env :: "unit env" where
  "sample_env =
     \<lparr>stage_packages_from_parts = (\<lambda>part_list. [''curl'', ''git'']),
      from_env = None,
      images_build = (\<lambda>tag text. Inr ''sha256:0001''),
      image_save = (\<lambda>image_id. Inr (Tar sample_image)),
      os_link_ok = (\<lambda>src dst. True),
      lib = sample_library\<rparr>"

definition sample_info :: project_info where
  "sample_info =
     \<lparr>series = ''20.04'', stage_dir = ''stage'', prime_dir = ''prime'', image_name = ''demo-image''\<rparr>"

text \<open>The sample world before the first run: no layer directory yet.\<close>

definition fresh_world :: "string list world" where
  "fresh_world =
     \<lparr>files = [''parts.yaml'' \<mapsto> FileN (Raw ''parts'')], lcm = [], trace = []\<rparr>"

section \<open>Properties of the layer extractor\<close>















lemmas path_defs = plain_entry_def clean_name_def is_plain_def ancestors_def add_entry_def



text \<open>
  Claim C4. On an archive that has no \<^verbatim>\<open>manifest.json\<close> member, \<^verbatim>\<open>image.extractfile\<close>
  does not return \<^verbatim>\<open>None\<close>: it raises \<^verbatim>\<open>KeyError\<close>, so the test
  \<^verbatim>\<open>if not manifest_file\<close> is never reached and the exception that leaves
  \<^verbatim>\<open>extract_stage_layer\<close> is the \<^verbatim>\<open>KeyError\<close>, not the \<^verbatim>\<open>RuntimeError\<close> with the text
  ``docker image missing manifest file''. Nothing is extracted. Evaluated on the empty
  archive, whatever the library does elsewhere:
\<close>

theorem extract_stage_layer_missing_manifest:
  "extract_stage_layer l ''image_data.tar'' ''layer'' [''image_data.tar'' \<mapsto> FileN (Tar [])]
    = (Inl (Raised KeyError ''manifest.json''), [''image_data.tar'' \<mapsto> FileN (Tar [])])"
  by (simp add: extract_stage_layer_def stage_layer_entries_def tarfile_open_def open_read_def tarfile_open_fileobj_def
     extractfile_def getmember_def)

section \<open>Properties of the action messages\<close>

text \<open>
  Claim C10. \<^verbatim>\<open>_action_message\<close> is partial on the pairs of step and type: for an
  action whose step is STAGE or PRIME and whose type is UPDATE the table has no entry
  and the lookup raises \<^verbatim>\<open>KeyError\<close>; for every other action the table has a message
  \<open>m\<close> and the result is \<open>m\<close>, a space and the part name, followed by the reason in
  parentheses when the action has one (a reason that is \<^verbatim>\<open>None\<close> or empty is none).
\<close>

theorem action_message_partial:
  "(step a \<in> {STAGE, PRIME} \<and> type a = UPDATE \<longrightarrow>
      action_message a = Inl (Raised KeyError ''ActionType.UPDATE''))
   \<and> (\<not> (step a \<in> {STAGE, PRIME} \<and> type a = UPDATE) \<longrightarrow>
      (\<exists>m. map_of (msg (step a)) (type a) = Some m
         \<and> action_message a =
             Inr (m @ '' '' @ part_name a @
                  (case reason a of None \<Rightarrow> [] | Some r \<Rightarrow> if r = [] then [] else '' ('' @ r @ '')''))))"
  by (cases "step a"; cases "type a"; cases "reason a")
     (simp_all add: action_message_def msg_lookup_def msg_def repr_action_type_def)

theorem action_message_partial_witness:
  "action_message \<lparr>part_name = ''foo'', step = PRIME, type = UPDATE, reason = None\<rparr>
     = Inl (Raised KeyError ''ActionType.UPDATE'')
   \<and> action_message \<lparr>part_name = ''foo'', step = PULL, type = UPDATE, reason = Some ''source changed''\<rparr>
     = Inr ''Update sources for foo (source changed)''
   \<and> action_message \<lparr>part_name = ''foo'', step = PRIME, type = RERUN, reason = None\<rparr>
     = Inr ''Re-prime foo''"
  using action_message_partial [of "\<lparr>part_name = ''foo'', step = PRIME, type = UPDATE, reason = None\<rparr>"]
    action_message_partial [of "\<lparr>part_name = ''foo'', step = PULL, type = UPDATE, reason = Some ''source changed''\<rparr>"]
    action_message_partial [of "\<lparr>part_name = ''foo'', step = PRIME, type = RERUN, reason = None\<rparr>"]
  by (simp add: msg_def)

section \<open>Properties of the build description\<close>







section \<open>Properties of the pipeline driver\<close>

lemmas prog_defs = returnM_def raiseM_def bindM_def emit_def liftE_def on_fs_def ask_def call_def

lemmas driver_defs = process_parts_def load_parts_def check_stage_packages_def run_command_def
  command_name_def target_step_def part_names_def
  do_step_def do_clean_def with_execution_context_def rmtree_layer_def open_read_def is_dir_def
  LAYER_DIR_def parse_step_def action_message_def msg_lookup_def msg_def

lemmas sample_defs = sample_lf_def sample_options_def sample_world_def sample_plan_def

text \<open>
  Claim C7. \<^verbatim>\<open>main\<close> maps the way \<^verbatim>\<open>process_parts\<close> ends to the exit status: a normal
  return gives 0, an \<^verbatim>\<open>OSError\<close> (of any subclass) gives 1, a
  \<^verbatim>\<open>SchemaValidationError\<close> gives 2, an \<^verbatim>\<open>InvalidPartName\<close> gives 3, and any other
  \<^verbatim>\<open>ValueError\<close> gives 4.
\<close>

theorem main_exit_status:
  "(process_parts lf options w = (Inr (), w') \<longrightarrow> fst (main lf options w) = 0)
   \<and> (process_parts lf options w = (Inl (Raised c m), w') \<and> subclass_of_OSError c \<longrightarrow>
        fst (main lf options w) = 1)
   \<and> (process_parts lf options w = (Inl (Raised c m), w') \<and> c = SchemaValidationError \<longrightarrow>
        fst (main lf options w) = 2)
   \<and> (process_parts lf options w = (Inl (Raised c m), w') \<and> c = InvalidPartName \<longrightarrow>
        fst (main lf options w) = 3)
   \<and> (process_parts lf options w = (Inl (Raised c m), w') \<and> subclass_of_ValueError c \<longrightarrow>
        fst (main lf options w) = 4)"
  by (cases c) (auto simp: main_def handle_error_def split: prod.splits)

theorem main_exit_status_witness:
  "fst (main sample_lf sample_options sample_world) = 0
   \<and> fst (main sample_lf (sample_options\<lparr>file := ''missing.yaml''\<rparr>) sample_world) = 1
   \<and> fst (main (sample_lf\<lparr>lf_new := \<lambda>part_data l fs. (Inl (Raised SchemaValidationError ''parts''), l, fs)\<rparr>)
          sample_options sample_world) = 2
   \<and> fst (main (sample_lf\<lparr>lf_plan := \<lambda>s ps l fs. Inl (Raised InvalidPartName ''bar'')\<rparr>)
          (sample_options\<lparr>parts := Some [''bar'']\<rparr>) sample_world) = 3
   \<and> fst (main sample_lf (sample_options\<lparr>plan_only := True, command := Some ''clean''\<rparr>) sample_world) = 4"
proof -
  have 0: "\<exists>w'. process_parts sample_lf sample_options sample_world = (Inr (), w')"
    by (simp add: driver_defs prog_defs sample_defs)
  have 1: "\<exists>w'. process_parts sample_lf (sample_options\<lparr>file := ''missing.yaml''\<rparr>) sample_world
      = (Inl (Raised FileNotFoundError ''No such file or directory''), w')"
    by (simp add: driver_defs prog_defs sample_defs)
  have 2: "\<exists>w'. process_parts (sample_lf\<lparr>lf_new := \<lambda>part_data l fs. (Inl (Raised SchemaValidationError ''parts''), l, fs)\<rparr>)
          sample_options sample_world = (Inl (Raised SchemaValidationError ''parts''), w')"
    by (simp add: driver_defs prog_defs sample_defs)
  have 3: "\<exists>w'. process_parts (sample_lf\<lparr>lf_plan := \<lambda>s ps l fs. Inl (Raised InvalidPartName ''bar'')\<rparr>)
          (sample_options\<lparr>parts := Some [''bar'']\<rparr>) sample_world = (Inl (Raised InvalidPartName ''bar''), w')"
    by (simp add: driver_defs prog_defs sample_defs)
  have 4: "\<exists>w'. process_parts sample_lf (sample_options\<lparr>plan_only := True, command := Some ''clean''\<rparr>) sample_world
      = (Inl (Raised ValueError ''Clean operations cannot be planned.''), w')"
    by (simp add: driver_defs prog_defs sample_defs)
  from 0 1 2 3 4 show ?thesis
    using main_exit_status by (metis subclass_of_OSError.simps(2) subclass_of_ValueError.simps(1))
qed

lemma pull_cleans_append: "pull_cleans (xs @ ys) = pull_cleans xs + pull_cleans ys"
  by (induction xs) (simp_all add: pull_cleans_def)

lemma pull_cleans_simps:
  "pull_cleans [] = 0"
  "pull_cleans (e # es) = (if e = LfClean (Some PULL) None then 1 else 0) + pull_cleans es"
  by (simp_all add: pull_cleans_def)

lemma print_plan_pull_cleans:
  "print_plan actions printed w = (r, w') \<Longrightarrow> pull_cleans (trace w') = pull_cleans (trace w)"
proof (induction actions arbitrary: printed w)
  case Nil
  then show ?case by (simp add: returnM_def)
next
  case (Cons a actions)
  show ?case
  proof (cases "type a = SKIP")
    case True
    with Cons show ?thesis by simp
  next
    case False
    show ?thesis
    proof (cases "action_message a")
      case (Inl e)
      with False Cons.prems show ?thesis by (simp add: prog_defs)
    next
      case (Inr m)
      with False Cons.prems have
        "print_plan actions True (w\<lparr>trace := trace w @ [Print m]\<rparr>) = (r, w')"
        by (simp add: prog_defs)
      from Cons.IH[OF this] show ?thesis
        by (simp add: pull_cleans_append pull_cleans_simps)
    qed
  qed
qed

lemma call_pull_cleans:
  "call ev c w = (r, w') \<Longrightarrow> pull_cleans (trace w') = pull_cleans (trace w) + pull_cleans [ev]"
  by (auto simp: call_def pull_cleans_append split: prod.splits)

lemma execute_plan_pull_cleans:
  "execute_plan lf actions w = (r, w') \<Longrightarrow> pull_cleans (trace w') = pull_cleans (trace w)"
proof (induction actions arbitrary: w)
  case Nil
  then show ?case by (simp add: returnM_def)
next
  case (Cons a actions)
  show ?case
  proof (cases "type a = SKIP")
    case True
    with Cons show ?thesis by simp
  next
    case False
    show ?thesis
    proof (cases "action_message a")
      case (Inl e)
      with False Cons.prems show ?thesis by (simp add: prog_defs)
    next
      case (Inr m)
      let ?w1 = "w\<lparr>trace := trace w @ [Print (''Execute: '' @ m)]\<rparr>"
      obtain r2 w2 where c: "call (CtxExecute a) (lf_execute lf a) ?w1 = (r2, w2)"
        by (cases "call (CtxExecute a) (lf_execute lf a) ?w1")
      from call_pull_cleans[OF c] have w2: "pull_cleans (trace w2) = pull_cleans (trace w)"
        by (simp add: pull_cleans_append pull_cleans_simps)
      show ?thesis
      proof (cases r2)
        case (Inl e)
        with False Inr Cons.prems c w2 show ?thesis
          by (simp add: bindM_def liftE_def emit_def)
      next
        case (Inr u)
        with False \<open>action_message a = Inr m\<close> Cons.prems c have
          "execute_plan lf actions w2 = (r, w')"
          by (simp add: bindM_def liftE_def emit_def)
        from Cons.IH[OF this] w2 show ?thesis by simp
      qed
    qed
  qed
qed

lemma do_step_pull_cleans:
  assumes "do_step lf options w = (r, w')"
  shows "pull_cleans (trace w') = pull_cleans (trace w)"
proof -
  let ?u = "if update options then call LfUpdate (lf_update lf) else returnM ()"
  obtain r1 w1 where u: "?u w = (r1, w1)" by (cases "?u w")
  then have w1: "pull_cleans (trace w1) = pull_cleans (trace w)"
    by (auto simp: returnM_def pull_cleans_simps dest!: call_pull_cleans split: if_splits)
  show ?thesis
  proof (cases r1)
    case (Inl e)
    with assms u w1 show ?thesis by (simp add: do_step_def bindM_def)
  next
    case (Inr x)
    let ?ev = "LfPlan (target_step options) (part_names options)"
    let ?w2 = "w1\<lparr>trace := trace w1 @ [?ev]\<rparr>"
    have w2: "pull_cleans (trace ?w2) = pull_cleans (trace w)"
      using w1 by (simp add: pull_cleans_append pull_cleans_simps)
    show ?thesis
    proof (cases "lf_plan lf (target_step options) (part_names options) (lcm w1) (files w1)")
      case (Inl e)
      with assms u Inr w2 show ?thesis by (auto simp: do_step_def bindM_def ask_def)
    next
      case plan: (Inr actions)
      show ?thesis
      proof (cases "plan_only options")
        case True
        obtain r3 w3 where p: "print_plan actions False ?w2 = (r3, w3)"
          by (cases "print_plan actions False ?w2")
        from print_plan_pull_cleans[OF p] w2 have "pull_cleans (trace w3) = pull_cleans (trace w)"
          by simp
        with assms u Inr plan True p show ?thesis
          by (cases r3)
             (auto simp: do_step_def bindM_def ask_def emit_def returnM_def raiseM_def
               pull_cleans_append pull_cleans_simps split: if_splits)
      next
        case False
        obtain r3 w3 where e: "call CtxEnter (lf_ctx_enter lf) ?w2 = (r3, w3)"
          by (cases "call CtxEnter (lf_ctx_enter lf) ?w2")
        from call_pull_cleans[OF e] w2 have w3: "pull_cleans (trace w3) = pull_cleans (trace w)"
          by (simp add: pull_cleans_simps)
        show ?thesis
        proof (cases r3)
          case (Inl e')
          with assms u Inr plan False e w3 show ?thesis
            by (simp add: do_step_def bindM_def ask_def with_execution_context_def)
        next
          case enter: (Inr y)
          obtain r4 w4 where b: "execute_plan lf actions w3 = (r4, w4)"
            by (cases "execute_plan lf actions w3")
          from execute_plan_pull_cleans[OF b] w3 have w4: "pull_cleans (trace w4) = pull_cleans (trace w)"
            by simp
          obtain r5 w5 where x: "call CtxExit (lf_ctx_exit lf) w4 = (r5, w5)"
            by (cases "call CtxExit (lf_ctx_exit lf) w4")
          from call_pull_cleans[OF x] w4 have w5: "pull_cleans (trace w5) = pull_cleans (trace w)"
            by (simp add: pull_cleans_simps)
          from assms u Inr plan False e enter b x have "w' = w5"
            by (cases r5) (simp_all add: do_step_def bindM_def ask_def with_execution_context_def)
          with w5 show ?thesis by simp
        qed
      qed
    qed
  qed
qed

lemma do_clean_pull_cleans:
  "do_clean lf options w = (r, w') \<Longrightarrow> pull_cleans (trace w') = pull_cleans (trace w)"
  by (auto simp: do_clean_def prog_defs rmtree_layer_def pull_cleans_append pull_cleans_simps
      split: if_splits option.splits prod.splits sum.splits)

lemma run_command_pull_cleans:
  "run_command lf options w = (r, w') \<Longrightarrow> pull_cleans (trace w') = pull_cleans (trace w)"
  by (auto simp: run_command_def bindM_def raiseM_def
      dest: do_clean_pull_cleans do_step_pull_cleans split: if_splits prod.splits sum.splits)

lemma load_parts_pull_cleans:
  "load_parts lf options w = (r, w') \<Longrightarrow> pull_cleans (trace w') = pull_cleans (trace w)"
  by (auto simp: load_parts_def prog_defs pull_cleans_append pull_cleans_simps
      split: sum.splits prod.splits)

lemma check_stage_packages_pull_cleans:
  assumes "lf_get_stage_packages lf (lcm w) (files w) = Inr stage_packages"
    and "lf_resolve_package_dependencies lf stage_packages (lcm w) (files w) = Inr stage_deps"
    and "lf_get_state_assets lf ''stage-packages'' PULL (lcm w) (files w) = Inr state_stage_deps"
    and "check_stage_packages lf w = (r, w')"
  shows "pull_cleans (trace w') =
     pull_cleans (trace w) + (if set stage_deps \<noteq> set state_stage_deps then 1 else 0)"
  using assms
  by (auto simp: check_stage_packages_def prog_defs rmtree_layer_def pull_cleans_append
      pull_cleans_simps split: if_splits prod.splits sum.splits)

lemma process_parts_pull_cleans:
  assumes "load_parts lf options w0 = (Inr (), w)"
    and "lf_get_stage_packages lf (lcm w) (files w) = Inr stage_packages"
    and "lf_resolve_package_dependencies lf stage_packages (lcm w) (files w) = Inr stage_deps"
    and "lf_get_state_assets lf ''stage-packages'' PULL (lcm w) (files w) = Inr state_stage_deps"
  shows "pull_cleans (trace (snd (process_parts lf options w0))) =
     pull_cleans (trace w0) + (if set stage_deps \<noteq> set state_stage_deps then 1 else 0)"
proof -
  obtain r1 w1 where c: "check_stage_packages lf w = (r1, w1)"
    by (cases "check_stage_packages lf w")
  from check_stage_packages_pull_cleans[OF assms(2-4) c] load_parts_pull_cleans[OF assms(1)]
  have w1: "pull_cleans (trace w1) =
     pull_cleans (trace w0) + (if set stage_deps \<noteq> set state_stage_deps then 1 else 0)"
    by simp
  show ?thesis
  proof (cases r1)
    case (Inl e)
    with assms(1) c w1 show ?thesis by (simp add: process_parts_def bindM_def)
  next
    case (Inr u)
    obtain r2 w2 where rc: "run_command lf options w1 = (r2, w2)"
      by (cases "run_command lf options w1")
    from run_command_pull_cleans[OF rc] w1 Inr assms(1) c rc show ?thesis
      by (simp add: process_parts_def bindM_def)
  qed
qed

text \<open>
  Claim C2. In \<^verbatim>\<open>process_parts\<close>, with the freshly resolved dependencies \<open>stage_deps\<close>
  and the packages \<open>state_stage_deps\<close> recorded in the state of the pull step:
  \<^verbatim>\<open>lf.clean(Step.PULL)\<close> is called by the package check if and only if the two differ
  as sets. When they are equal as sets, the check clears nothing and removes nothing:
  it returns with the lifecycle state and the file system as they were. When they
  differ, and the clean and the reload return normally, the check returns after the
  clean, the reload and the removal of the layer directory, which is then absent. And
  over the whole of \<^verbatim>\<open>process_parts\<close>, whatever the command, \<^verbatim>\<open>lf.clean(Step.PULL)\<close>
  is called once when the sets differ and never when they are equal.
\<close>

theorem check_stage_packages_iff:
  assumes "lf_get_stage_packages lf (lcm w) (files w) = Inr stage_packages"
    and "lf_resolve_package_dependencies lf stage_packages (lcm w) (files w) = Inr stage_deps"
    and "lf_get_state_assets lf ''stage-packages'' PULL (lcm w) (files w) = Inr state_stage_deps"
  shows "(LfClean (Some PULL) None
            \<in> set (drop (length (trace w)) (trace (snd (check_stage_packages lf w))))
          \<longleftrightarrow> set stage_deps \<noteq> set state_stage_deps)
     \<and> (set stage_deps = set state_stage_deps \<longrightarrow>
            check_stage_packages lf w =
              (Inr (), w\<lparr>trace := trace w @
                 [LfGetStagePackages, LfResolvePackageDependencies stage_packages,
                  LfGetStateAssets ''stage-packages'' PULL]\<rparr>))
     \<and> (set stage_deps \<noteq> set state_stage_deps
          \<and> lf_clean lf (Some PULL) None (lcm w) (files w) = (Inr (), l1, f1)
          \<and> lf_reload_state lf l1 f1 = (Inr (), l2, f2) \<longrightarrow>
            check_stage_packages lf w =
              (Inr (), \<lparr>files = f2(LAYER_DIR := (if is_dir f2 LAYER_DIR then None else f2 LAYER_DIR)),
                        lcm = l2,
                        trace = trace w @
                          [LfGetStagePackages, LfResolvePackageDependencies stage_packages,
                           LfGetStateAssets ''stage-packages'' PULL,
                           LfClean (Some PULL) None, LfReloadState]\<rparr>)
            \<and> \<not> is_dir (files (snd (check_stage_packages lf w))) LAYER_DIR)
     \<and> (load_parts lf options w0 = (Inr (), w) \<longrightarrow>
            pull_cleans (trace (snd (process_parts lf options w0))) =
              pull_cleans (trace w0) + (if set stage_deps \<noteq> set state_stage_deps then 1 else 0))"
proof -
  have same: "check_stage_packages lf w =
      (Inr (), w\<lparr>trace := trace w @
         [LfGetStagePackages, LfResolvePackageDependencies stage_packages,
          LfGetStateAssets ''stage-packages'' PULL]\<rparr>)"
    if "set stage_deps = set state_stage_deps"
    using assms that by (simp add: check_stage_packages_def prog_defs)
  have differ: "LfClean (Some PULL) None
      \<in> set (drop (length (trace w)) (trace (snd (check_stage_packages lf w))))"
    if "set stage_deps \<noteq> set state_stage_deps"
    using assms that
    by (auto simp: check_stage_packages_def prog_defs rmtree_layer_def split: prod.splits sum.splits)
  have cleared: "check_stage_packages lf w =
      (Inr (), \<lparr>files = f2(LAYER_DIR := (if is_dir f2 LAYER_DIR then None else f2 LAYER_DIR)),
                lcm = l2,
                trace = trace w @
                  [LfGetStagePackages, LfResolvePackageDependencies stage_packages,
                   LfGetStateAssets ''stage-packages'' PULL,
                   LfClean (Some PULL) None, LfReloadState]\<rparr>)"
    if "set stage_deps \<noteq> set state_stage_deps"
      and "lf_clean lf (Some PULL) None (lcm w) (files w) = (Inr (), l1, f1)"
      and "lf_reload_state lf l1 f1 = (Inr (), l2, f2)"
    using assms that by (simp add: check_stage_packages_def prog_defs rmtree_layer_def)
  have gone: "\<not> is_dir (f2(LAYER_DIR := (if is_dir f2 LAYER_DIR then None else f2 LAYER_DIR))) LAYER_DIR"
    by (simp add: is_dir_def)
  have none: "LfClean (Some PULL) None
      \<notin> set (drop (length (trace w)) (trace (snd (check_stage_packages lf w))))"
    if "set stage_deps = set state_stage_deps"
    by (simp add: same[OF that])
  have whole: "pull_cleans (trace (snd (process_parts lf options w0))) =
      pull_cleans (trace w0) + (if set stage_deps \<noteq> set state_stage_deps then 1 else 0)"
    if "load_parts lf options w0 = (Inr (), w)"
    using that assms by (rule process_parts_pull_cleans)
  show ?thesis
    using same differ cleared gone none whole by auto
qed

theorem check_stage_packages_iff_witness:
  "check_stage_packages sample_lf sample_world =
     (Inr (), sample_world\<lparr>trace :=
        [LfGetStagePackages, LfResolvePackageDependencies [''curl'', ''git''],
         LfGetStateAssets ''stage-packages'' PULL]\<rparr>)
   \<and> check_stage_packages sample_lf (sample_world\<lparr>lcm := [''curl'']\<rparr>) =
     (Inr (), \<lparr>files = [''parts.yaml'' \<mapsto> FileN (Raw ''parts'')],
               lcm = [],
               trace = [LfGetStagePackages, LfResolvePackageDependencies [''curl'', ''git''],
                        LfGetStateAssets ''stage-packages'' PULL,
                        LfClean (Some PULL) None, LfReloadState]\<rparr>)
   \<and> pull_cleans (trace (snd (process_parts sample_lf sample_options sample_world))) = 0
   \<and> pull_cleans (trace (snd (process_parts sample_lf sample_options
                                   (sample_world\<lparr>lcm := [''curl'']\<rparr>)))) = 1"
  using check_stage_packages_iff [of sample_lf "sample_world\<lparr>trace := [LfNew (PDict [])]\<rparr>"
      "[''curl'', ''git'']" "[''curl'', ''git'']" "[''git'', ''curl'']"
      "[]" "files sample_world" "[]" "files sample_world" sample_options sample_world]
    check_stage_packages_iff [of sample_lf "sample_world\<lparr>lcm := [''curl''], trace := [LfNew (PDict [])]\<rparr>"
      "[''curl'', ''git'']" "[''curl'', ''git'']" "[''curl'']"
      "[]" "files sample_world" "[]" "files sample_world" sample_options
      "sample_world\<lparr>lcm := [''curl'']\<rparr>"]
    check_stage_packages_iff [of sample_lf sample_world "[''curl'', ''git'']" "[''curl'', ''git'']"
      "[''git'', ''curl'']"]
    check_stage_packages_iff [of sample_lf "sample_world\<lparr>lcm := [''curl'']\<rparr>" "[''curl'', ''git'']"
      "[''curl'', ''git'']" "[''curl'']" "[]" "files sample_world" "[]" "files sample_world"]
  by (auto simp: sample_defs LAYER_DIR_def is_dir_def load_parts_def open_read_def prog_defs
      pull_cleans_def)

lemma executed_append: "executed (xs @ ys) = executed xs @ executed ys"
  by (induction xs rule: executed.induct) simp_all

lemma executed_Prints: "executed (map Print ms) = []"
  by (induction ms) simp_all

lemma action_message_defined:
  "\<not> (step a \<in> {STAGE, PRIME} \<and> type a = UPDATE) \<Longrightarrow> \<exists>m. action_message a = Inr m"
  by (cases "step a"; cases "type a")
     (simp_all add: action_message_def msg_lookup_def msg_def)

lemma print_plan_ok:
  "\<forall>a\<in>set actions. type a \<noteq> SKIP \<longrightarrow> \<not> (step a \<in> {STAGE, PRIME} \<and> type a = UPDATE) \<Longrightarrow>
   print_plan actions printed w =
     (Inr (printed \<or> filter (\<lambda>a. type a \<noteq> SKIP) actions \<noteq> []),
      w\<lparr>trace := trace w @
           map (\<lambda>a. Print (projr (action_message a))) (filter (\<lambda>a. type a \<noteq> SKIP) actions)\<rparr>)"
proof (induction actions arbitrary: printed w)
  case Nil
  show ?case by (simp add: returnM_def)
next
  case (Cons a actions)
  show ?case
  proof (cases "type a = SKIP")
    case True
    with Cons show ?thesis by simp
  next
    case False
    with Cons.prems obtain m where m: "action_message a = Inr m"
      using action_message_defined[of a] by auto
    from Cons.prems have "\<forall>a\<in>set actions. type a \<noteq> SKIP \<longrightarrow> \<not> (step a \<in> {STAGE, PRIME} \<and> type a = UPDATE)"
      by simp
    from Cons.IH[OF this] False m show ?thesis
      by (simp add: prog_defs)
  qed
qed

lemma print_plan_executed:
  "print_plan actions printed w = (r, w') \<Longrightarrow> executed (trace w') = executed (trace w)"
proof (induction actions arbitrary: printed w)
  case Nil
  then show ?case by (simp add: returnM_def)
next
  case (Cons a actions)
  show ?case
  proof (cases "type a = SKIP")
    case True
    with Cons show ?thesis by simp
  next
    case False
    show ?thesis
    proof (cases "action_message a")
      case (Inl e)
      with False Cons.prems show ?thesis by (simp add: prog_defs)
    next
      case (Inr m)
      with False Cons.prems have
        "print_plan actions True (w\<lparr>trace := trace w @ [Print m]\<rparr>) = (r, w')"
        by (simp add: prog_defs)
      from Cons.IH[OF this] show ?thesis
        by (simp add: executed_append)
    qed
  qed
qed

lemma load_parts_executed:
  "load_parts lf options w = (r, w') \<Longrightarrow> executed (trace w') = executed (trace w)"
  by (auto simp: load_parts_def prog_defs executed_append split: sum.splits prod.splits)

lemma check_stage_packages_executed:
  "check_stage_packages lf w = (r, w') \<Longrightarrow> executed (trace w') = executed (trace w)"
  by (auto simp: check_stage_packages_def prog_defs rmtree_layer_def executed_append
      split: sum.splits prod.splits if_splits)

lemma update_executed:
  "(if update options then call LfUpdate (lf_update lf) else returnM ()) w = (r, w') \<Longrightarrow>
   executed (trace w') = executed (trace w)"
  by (auto simp: prog_defs executed_append split: sum.splits prod.splits if_splits)

lemma do_step_plan_only_executed:
  assumes "plan_only options" and "do_step lf options w = (r, w')"
  shows "executed (trace w') = executed (trace w)"
proof -
  let ?u = "if update options then call LfUpdate (lf_update lf) else returnM ()"
  obtain r1 w1 where u: "?u w = (r1, w1)" by (cases "?u w")
  from update_executed[OF u] have w1: "executed (trace w1) = executed (trace w)" .
  show ?thesis
  proof (cases r1)
    case (Inl e)
    with assms u w1 show ?thesis by (simp add: do_step_def bindM_def)
  next
    case (Inr x)
    let ?ev = "LfPlan (target_step options) (part_names options)"
    let ?w2 = "w1\<lparr>trace := trace w1 @ [?ev]\<rparr>"
    have w2: "executed (trace ?w2) = executed (trace w)"
      using w1 by (simp add: executed_append)
    show ?thesis
    proof (cases "lf_plan lf (target_step options) (part_names options) (lcm w1) (files w1)")
      case (Inl e)
      with assms u Inr w2 show ?thesis by (auto simp: do_step_def bindM_def ask_def)
    next
      case plan: (Inr actions)
      obtain r3 w3 where p: "print_plan actions False ?w2 = (r3, w3)"
        by (cases "print_plan actions False ?w2")
      from print_plan_executed[OF p] w2 have "executed (trace w3) = executed (trace w)"
        by simp
      with assms u Inr plan p show ?thesis
        by (cases r3)
           (auto simp: do_step_def bindM_def ask_def emit_def returnM_def raiseM_def
             executed_append split: if_splits)
    qed
  qed
qed

lemma run_command_plan_only_executed:
  assumes "plan_only options" and "run_command lf options w = (r, w')"
  shows "executed (trace w') = executed (trace w)"
proof (cases "command_name options = ''clean''")
  case True
  with assms show ?thesis
    by (simp add: run_command_def do_clean_def bindM_def raiseM_def)
next
  case False
  with assms do_step_plan_only_executed[of options lf w r w'] show ?thesis
    by (simp add: run_command_def)
qed

lemma process_parts_plan_only_executed:
  assumes "plan_only options"
  shows "executed (trace (snd (process_parts lf options w))) = executed (trace w)"
proof -
  obtain r1 w1 where l: "load_parts lf options w = (r1, w1)"
    by (cases "load_parts lf options w")
  from load_parts_executed[OF l] have w1: "executed (trace w1) = executed (trace w)" .
  show ?thesis
  proof (cases r1)
    case (Inl e)
    with l w1 show ?thesis by (simp add: process_parts_def bindM_def)
  next
    case (Inr u)
    obtain r2 w2 where c: "check_stage_packages lf w1 = (r2, w2)"
      by (cases "check_stage_packages lf w1")
    from check_stage_packages_executed[OF c] w1 have w2: "executed (trace w2) = executed (trace w)"
      by simp
    show ?thesis
    proof (cases r2)
      case (Inl e)
      with l Inr c w2 show ?thesis by (simp add: process_parts_def bindM_def)
    next
      case ok: (Inr u')
      obtain r3 w3 where rc: "run_command lf options w2 = (r3, w3)"
        by (cases "run_command lf options w2")
      from run_command_plan_only_executed[OF assms rc] w2 l Inr c ok rc show ?thesis
        by (simp add: process_parts_def bindM_def)
    qed
  qed
qed

lemma main_executed:
  "executed (trace (snd (main lf options w))) = executed (trace (snd (process_parts lf options w)))"
proof (cases "process_parts lf options w")
  case (Pair r w')
  show ?thesis
  proof (cases r)
    case (Inl e)
    show ?thesis
    proof (cases e)
      case (Raised c m)
      with Pair Inl show ?thesis
        by (simp add: main_def handle_error_def executed_append)
    next
      case (SystemExit status)
      with Pair Inl show ?thesis by (simp add: main_def handle_error_def)
    qed
  next
    case (Inr u)
    with Pair show ?thesis by (simp add: main_def)
  qed
qed

text \<open>
  Claim C6. With plan-only enabled the driver never calls the execution context's
  \<^verbatim>\<open>execute\<close>, however the run ends. Once the parts are loaded and the package check
  has returned: for the clean command \<^verbatim>\<open>_do_clean\<close> raises \<^verbatim>\<open>ValueError\<close> and \<^verbatim>\<open>main\<close>
  ends with status 4; for every other command, when the optional update and the
  planning return normally with a plan as the lifecycle manager makes it (an update
  action for the pull and the build step only, so that every action that is not a skip
  has a message), \<^verbatim>\<open>main\<close> prints the message of each non-skip action in plan order
  (or that there are no actions) and ends with status 0.
\<close>

theorem plan_only_no_execution:
  assumes "plan_only options"
  shows "executed (trace (snd (main lf options w))) = executed (trace w)
     \<and> (load_parts lf options w = (Inr (), wa) \<and> check_stage_packages lf wa = (Inr (), w0)
          \<and> command_name options = ''clean'' \<longrightarrow>
            main lf options w =
              (4, w0\<lparr>trace := trace w0 @ [PrintErr ''Error: Clean operations cannot be planned.'']\<rparr>))
     \<and> (load_parts lf options w = (Inr (), wa) \<and> check_stage_packages lf wa = (Inr (), w0)
          \<and> command_name options \<noteq> ''clean''
          \<and> (if update options then call LfUpdate (lf_update lf) else returnM ()) w0 = (Inr (), w1)
          \<and> lf_plan lf (target_step options) (part_names options) (lcm w1) (files w1) = Inr actions
          \<and> (\<forall>a\<in>set actions. type a \<noteq> SKIP \<longrightarrow> \<not> (step a \<in> {STAGE, PRIME} \<and> type a = UPDATE))
          \<longrightarrow>
            main lf options w =
              (0, w1\<lparr>trace := trace w1 @
                    LfPlan (target_step options) (part_names options) #
                    (if filter (\<lambda>a. type a \<noteq> SKIP) actions = [] then [Print ''No actions to execute.'']
                     else map (\<lambda>a. Print (projr (action_message a)))
                            (filter (\<lambda>a. type a \<noteq> SKIP) actions))\<rparr>))"
proof -
  have never: "executed (trace (snd (main lf options w))) = executed (trace w)"
    using main_executed[of lf options w] process_parts_plan_only_executed[OF assms, of lf w]
    by simp
  have clean: "main lf options w =
      (4, w0\<lparr>trace := trace w0 @ [PrintErr ''Error: Clean operations cannot be planned.'']\<rparr>)"
    if "load_parts lf options w = (Inr (), wa)" "check_stage_packages lf wa = (Inr (), w0)"
      "command_name options = ''clean''"
    using that assms
    by (simp add: main_def process_parts_def run_command_def do_clean_def bindM_def raiseM_def
        handle_error_def)
  have steps: "main lf options w =
      (0, w1\<lparr>trace := trace w1 @
            LfPlan (target_step options) (part_names options) #
            (if filter (\<lambda>a. type a \<noteq> SKIP) actions = [] then [Print ''No actions to execute.'']
             else map (\<lambda>a. Print (projr (action_message a)))
                    (filter (\<lambda>a. type a \<noteq> SKIP) actions))\<rparr>)"
    if l: "load_parts lf options w = (Inr (), wa)" and c: "check_stage_packages lf wa = (Inr (), w0)"
      and nc: "command_name options \<noteq> ''clean''"
      and u: "(if update options then call LfUpdate (lf_update lf) else returnM ()) w0 = (Inr (), w1)"
      and p: "lf_plan lf (target_step options) (part_names options) (lcm w1) (files w1) = Inr actions"
      and wf: "\<forall>a\<in>set actions. type a \<noteq> SKIP \<longrightarrow> \<not> (step a \<in> {STAGE, PRIME} \<and> type a = UPDATE)"
  proof -
    let ?plan = "LfPlan (target_step options) (part_names options)"
    let ?w2 = "w1\<lparr>trace := trace w1 @ [?plan]\<rparr>"
    let ?out = "if filter (\<lambda>a. type a \<noteq> SKIP) actions = [] then [Print ''No actions to execute.'']
                else map (\<lambda>a. Print (projr (action_message a))) (filter (\<lambda>a. type a \<noteq> SKIP) actions)"
    from wf have pp: "print_plan actions False ?w2 =
        (Inr (filter (\<lambda>a. type a \<noteq> SKIP) actions \<noteq> []),
         ?w2\<lparr>trace := trace ?w2 @
             map (\<lambda>a. Print (projr (action_message a))) (filter (\<lambda>a. type a \<noteq> SKIP) actions)\<rparr>)"
      using print_plan_ok[of actions False ?w2] by simp
    have ds: "do_step lf options w0 = (Inl (SystemExit 0), w1\<lparr>trace := trace w1 @ ?plan # ?out\<rparr>)"
      using u p assms pp
      by (simp add: do_step_def bindM_def ask_def raiseM_def emit_def returnM_def)
    show ?thesis
      using l c nc ds
      by (simp add: main_def process_parts_def run_command_def bindM_def handle_error_def)
  qed
  show ?thesis
    using never clean steps by blast
qed

theorem plan_only_no_execution_witness:
  "main sample_lf (sample_options\<lparr>plan_only := True\<rparr>) sample_world =
     (0, sample_world\<lparr>trace :=
           [LfNew (PDict []), LfGetStagePackages, LfResolvePackageDependencies [''curl'', ''git''],
            LfGetStateAssets ''stage-packages'' PULL, LfPlan PRIME [],
            Print ''Update build for foo (source changed)'', Print ''Prime foo'']\<rparr>)
   \<and> main sample_lf (sample_options\<lparr>plan_only := True, command := Some ''clean''\<rparr>) sample_world =
     (4, sample_world\<lparr>trace :=
           [LfNew (PDict []), LfGetStagePackages, LfResolvePackageDependencies [''curl'', ''git''],
            LfGetStateAssets ''stage-packages'' PULL,
            PrintErr ''Error: Clean operations cannot be planned.'']\<rparr>)
   \<and> executed (trace (snd (main sample_lf (sample_options\<lparr>plan_only := True\<rparr>) sample_world))) = []"
  using plan_only_no_execution [where options = "sample_options\<lparr>plan_only := True\<rparr>"
      and lf = sample_lf and w = sample_world
      and wa = "sample_world\<lparr>trace := [LfNew (PDict [])]\<rparr>"
      and ?w0.0 = "sample_world\<lparr>trace :=
           [LfNew (PDict []), LfGetStagePackages, LfResolvePackageDependencies [''curl'', ''git''],
            LfGetStateAssets ''stage-packages'' PULL]\<rparr>"
      and ?w1.0 = "sample_world\<lparr>trace :=
           [LfNew (PDict []), LfGetStagePackages, LfResolvePackageDependencies [''curl'', ''git''],
            LfGetStateAssets ''stage-packages'' PULL]\<rparr>"
      and actions = sample_plan]
    plan_only_no_execution [where options = "sample_options\<lparr>plan_only := True, command := Some ''clean''\<rparr>"
      and lf = sample_lf and w = sample_world
      and wa = "sample_world\<lparr>trace := [LfNew (PDict [])]\<rparr>"
      and ?w0.0 = "sample_world\<lparr>trace :=
           [LfNew (PDict []), LfGetStagePackages, LfResolvePackageDependencies [''curl'', ''git''],
            LfGetStateAssets ''stage-packages'' PULL]\<rparr>"]
  by (simp add: driver_defs prog_defs sample_defs insert_commute)

section \<open>Properties of the stage materializer\<close>






lemma copytree_not_dir:
  "\<not> is_dir fs src \<Longrightarrow> snd (copytree l lk src dst fs) = fs"
  by (auto simp: copytree_def is_dir_def split: option.splits node.splits)

lemma copytree_src:
  "snd (copytree l lk src dst fs) src = fs src"
  by (auto simp: copytree_def split: option.splits node.splits prod.splits)

lemma build_stage_layer_hit:
  "is_dir (files w) LAYER_DIR \<Longrightarrow>
   build_stage_layer env info part_list w =
     (Inr (), w\<lparr>trace := trace w @ [Print ''Using existing stage layer'']\<rparr>)"
  by (simp add: build_stage_layer_def emit_def)



lemma stage_layer_entries_cong:
  "fs p = fs' p \<Longrightarrow> stage_layer_entries l fs p = stage_layer_entries l fs' p"
  by (simp add: stage_layer_entries_def tarfile_open_def open_read_def)



text \<open>
  What an extraction does to the destination depends on what the destination holds,
  not on the rest of the file system; a destination that is a directory stays one,
  and one that is no directory afterwards is as it was.
\<close>

lemma write_outside_path: "write_outside p ws fs p = fs p"
  by (induction ws arbitrary: fs) auto

lemma tar_extract_same_dst:
  assumes "fs p = fs' p"
  shows "fst (tar_extract l p e fs) = fst (tar_extract l p e fs')
   \<and> snd (tar_extract l p e fs) p = snd (tar_extract l p e fs') p"
proof (cases "fs p")
  case None
  with assms have "fs' p = None" by simp
  with None show ?thesis
    by (simp add: tar_extract_def write_outside_path split: prod.splits)
next
  case (Some nd)
  with assms have s': "fs' p = Some nd" by simp
  show ?thesis
  proof (cases nd)
    case (FileN c)
    with Some s' show ?thesis
      by (simp add: tar_extract_def write_outside_path split: prod.splits)
  next
    case (DirN d)
    with Some s' show ?thesis
      by (simp add: tar_extract_def write_outside_path split: prod.splits)
  qed
qed

lemma tar_extract_dir:
  "is_dir fs p \<Longrightarrow> is_dir (snd (tar_extract l p e fs)) p"
  by (auto simp: tar_extract_def is_dir_def split: option.splits node.splits prod.splits)

lemma tar_extract_not_dir:
  assumes "\<not> is_dir (snd (tar_extract l p e fs)) p"
  shows "snd (tar_extract l p e fs) p = fs p"
proof (cases "fs p")
  case None
  with assms show ?thesis
    by (auto simp: tar_extract_def is_dir_def write_outside_path
        split: prod.splits option.splits if_splits)
next
  case (Some nd)
  show ?thesis
  proof (cases nd)
    case (FileN c)
    with Some show ?thesis
      by (simp add: tar_extract_def write_outside_path split: prod.splits)
  next
    case (DirN d)
    with Some assms show ?thesis
      by (auto simp: tar_extract_def is_dir_def split: prod.splits if_splits)
  qed
qed

lemma extract_all_same_dst:
  "fs p = fs' p \<Longrightarrow>
   fst (extract_all l p es fs) = fst (extract_all l p es fs')
   \<and> snd (extract_all l p es fs) p = snd (extract_all l p es fs') p"
proof (induction es arbitrary: fs fs')
  case Nil
  then show ?case by simp
next
  case (Cons e es)
  obtain r f where t: "tar_extract l p e fs = (r, f)" by (cases "tar_extract l p e fs")
  obtain r' f' where t': "tar_extract l p e fs' = (r', f')" by (cases "tar_extract l p e fs'")
  from tar_extract_same_dst[of fs p fs' l e] Cons.prems t t' have same: "r' = r" "f p = f' p"
    by simp_all
  show ?case
  proof (cases r)
    case (Inl x)
    with t t' same show ?thesis by simp
  next
    case (Inr u)
    with t t' same Cons.IH[of f f'] show ?thesis by simp
  qed
qed

lemma extract_all_dir_stays:
  "is_dir fs p \<Longrightarrow> is_dir (snd (extract_all l p es fs)) p"
proof (induction es arbitrary: fs)
  case Nil
  then show ?case by simp
next
  case (Cons e es)
  obtain r f where t: "tar_extract l p e fs = (r, f)" by (cases "tar_extract l p e fs")
  from tar_extract_dir[of fs p l e] Cons.prems t have "is_dir f p" by simp
  with t Cons.IH[of f] show ?case by (cases r) simp_all
qed

lemma extract_all_not_dir:
  "\<not> is_dir (snd (extract_all l p es fs)) p \<Longrightarrow> snd (extract_all l p es fs) p = fs p"
proof (induction es arbitrary: fs)
  case Nil
  then show ?case by simp
next
  case (Cons e es)
  obtain r f where t: "tar_extract l p e fs = (r, f)" by (cases "tar_extract l p e fs")
  show ?case
  proof (cases r)
    case (Inl x)
    with t Cons.prems tar_extract_not_dir[of l p e fs] show ?thesis by simp
  next
    case (Inr u)
    with t Cons.prems have nd: "\<not> is_dir (snd (extract_all l p es f)) p" by simp
    then have "\<not> is_dir f p" using extract_all_dir_stays[of f p l es] by blast
    with t tar_extract_not_dir[of l p e fs] have "f p = fs p" by simp
    with Cons.IH[of f] nd Inr t show ?thesis by simp
  qed
qed

lemma build_stage_layer_miss_files:
  "\<not> is_dir (files w) LAYER_DIR \<Longrightarrow>
   files (snd (build_stage_layer env info part_list w)) = miss_files env info part_list (files w)"
  by (simp add: build_stage_layer_def miss_files_def engine_data_def unpack_and_copy_def
      Let_def bindM_def emit_def liftE_def on_fs_def
      split: option.splits sum.splits prod.splits)

text \<open>The layer directory after the extraction and the copies is the one after the extraction.\<close>

lemma copytree_chain_layer:
  "(case copytree l lk LAYER_DIR s fs of
      (Inl e, fs3) \<Rightarrow> fs3
    | (Inr _, fs3) \<Rightarrow> snd (copytree l lk LAYER_DIR p fs3)) LAYER_DIR = fs LAYER_DIR"
proof -
  obtain r fs3 where c: "copytree l lk LAYER_DIR s fs = (r, fs3)"
    by (cases "copytree l lk LAYER_DIR s fs")
  with copytree_src[of l lk LAYER_DIR s fs] have "fs3 LAYER_DIR = fs LAYER_DIR" by simp
  with c show ?thesis by (cases r) (simp_all add: copytree_src)
qed

lemma extract_stage_layer_same_dst:
  assumes "fs img = fs' img" and "fs p = fs' p"
  shows "snd (extract_stage_layer l img p fs) p = snd (extract_stage_layer l img p fs') p"
proof -
  have e: "stage_layer_entries l fs img = stage_layer_entries l fs' img"
    using assms(1) by (rule stage_layer_entries_cong)
  show ?thesis
  proof (cases "stage_layer_entries l fs img")
    case (Inl x)
    then have "stage_layer_entries l fs' img = Inl x" using e by simp
    with Inl assms(2) show ?thesis by (simp add: extract_stage_layer_def)
  next
    case (Inr es)
    then have "stage_layer_entries l fs' img = Inr es" using e by simp
    with Inr extract_all_same_dst[of fs p fs' l es] assms(2) show ?thesis
      by (simp add: extract_stage_layer_def)
  qed
qed

lemma extract_stage_layer_not_dir:
  "\<not> is_dir (snd (extract_stage_layer l img p fs)) p \<Longrightarrow>
   snd (extract_stage_layer l img p fs) p = fs p"
  by (cases "stage_layer_entries l fs img")
     (simp_all add: extract_stage_layer_def extract_all_not_dir)

lemma unpack_and_copy_blocked:
  "is_dir fs ''image_data.tar'' \<Longrightarrow> unpack_and_copy env info image_data fs = fs"
  by (auto simp: unpack_and_copy_def write_file_def is_dir_def split: option.splits node.splits)

lemma unpack_and_copy_layer:
  assumes "\<not> is_dir fs ''image_data.tar''"
  shows "unpack_and_copy env info image_data fs LAYER_DIR =
     snd (extract_stage_layer (lib env) ''image_data.tar'' LAYER_DIR
            (fs(''image_data.tar'' \<mapsto> FileN image_data))) LAYER_DIR"
proof -
  let ?fs1 = "fs(''image_data.tar'' \<mapsto> FileN image_data)"
  have w: "write_file ''image_data.tar'' image_data fs = (Inr (), ?fs1)"
    using assms by (auto simp: write_file_def is_dir_def split: option.splits node.splits)
  obtain r fs2 where x: "extract_stage_layer (lib env) ''image_data.tar'' LAYER_DIR ?fs1 = (r, fs2)"
    by (cases "extract_stage_layer (lib env) ''image_data.tar'' LAYER_DIR ?fs1")
  show ?thesis
    by (cases r) (simp_all add: unpack_and_copy_def w x copytree_chain_layer)
qed

lemma unpack_and_copy_stable:
  assumes after: "\<not> is_dir (unpack_and_copy env info image_data fs) LAYER_DIR"
  shows "unpack_and_copy env info image_data (unpack_and_copy env info image_data fs) LAYER_DIR
       = unpack_and_copy env info image_data fs LAYER_DIR"
proof (cases "is_dir fs ''image_data.tar''")
  case True
  then show ?thesis by (simp add: unpack_and_copy_blocked)
next
  case False
  let ?g = "unpack_and_copy env info image_data fs"
  let ?x = "\<lambda>f. snd (extract_stage_layer (lib env) ''image_data.tar'' LAYER_DIR
                       (f(''image_data.tar'' \<mapsto> FileN image_data))) LAYER_DIR"
  have g: "?g LAYER_DIR = ?x fs" using False by (rule unpack_and_copy_layer)
  with after have "\<not> is_dir (snd (extract_stage_layer (lib env) ''image_data.tar'' LAYER_DIR
      (fs(''image_data.tar'' \<mapsto> FileN image_data)))) LAYER_DIR"
    by (simp add: is_dir_def)
  then have "?x fs = (fs(''image_data.tar'' \<mapsto> FileN image_data)) LAYER_DIR"
    by (rule extract_stage_layer_not_dir)
  also have "\<dots> = fs LAYER_DIR" by (simp add: LAYER_DIR_def)
  finally have same: "?g LAYER_DIR = fs LAYER_DIR" using g by simp
  show ?thesis
  proof (cases "is_dir ?g ''image_data.tar''")
    case True
    then show ?thesis by (simp add: unpack_and_copy_blocked)
  next
    case nd: False
    have "unpack_and_copy env info image_data ?g LAYER_DIR = ?x ?g"
      using nd by (rule unpack_and_copy_layer)
    also have "\<dots> = ?x fs"
    proof (rule extract_stage_layer_same_dst)
      show "(?g(''image_data.tar'' \<mapsto> FileN image_data)) ''image_data.tar''
          = (fs(''image_data.tar'' \<mapsto> FileN image_data)) ''image_data.tar''" by simp
      show "(?g(''image_data.tar'' \<mapsto> FileN image_data)) LAYER_DIR
          = (fs(''image_data.tar'' \<mapsto> FileN image_data)) LAYER_DIR"
        using same by (simp add: LAYER_DIR_def)
    qed
    finally show ?thesis using g by simp
  qed
qed

lemma build_stage_layer_twice_files:
  "files (snd (build_stage_layer env info part_list (snd (build_stage_layer env info part_list w))))
   LAYER_DIR
   = files (snd (build_stage_layer env info part_list w)) LAYER_DIR"
proof -
  let ?b = "build_stage_layer env info part_list"
  let ?w1 = "snd (?b w)"
  show ?thesis
  proof (cases "is_dir (files ?w1) LAYER_DIR")
    case True
    then show ?thesis by (simp add: build_stage_layer_hit)
  next
    case False
    have miss: "\<not> is_dir (files w) LAYER_DIR"
    proof
      assume "is_dir (files w) LAYER_DIR"
      then have "files ?w1 = files w" by (simp add: build_stage_layer_hit)
      with False \<open>is_dir (files w) LAYER_DIR\<close> show False by simp
    qed
    have f1: "files ?w1 = miss_files env info part_list (files w)"
      using miss by (rule build_stage_layer_miss_files)
    have f2: "files (snd (?b ?w1)) = miss_files env info part_list (files ?w1)"
      using False by (rule build_stage_layer_miss_files)
    have "miss_files env info part_list (miss_files env info part_list (files w)) LAYER_DIR
        = miss_files env info part_list (files w) LAYER_DIR"
    proof (cases "engine_data env info part_list")
      case (Inl e)
      then show ?thesis by (simp add: miss_files_def)
    next
      case (Inr image_data)
      with False f1 have "\<not> is_dir (unpack_and_copy env info image_data (files w)) LAYER_DIR"
        by (simp add: miss_files_def)
      from unpack_and_copy_stable[OF this] Inr show ?thesis
        by (simp add: miss_files_def)
    qed
    with f1 f2 show ?thesis by simp
  qed
qed

lemmas stage_defs = build_stage_layer_def write_file_def extract_stage_layer_def
  stage_layer_entries_def tarfile_open_def open_read_def tarfile_open_fileobj_def extractfile_def
  getmember_def json_loads_def subscript_first_def subscript_key_def subscript_last_def
  tar_extract_def copytree_def is_dir_def LAYER_DIR_def dockerfile_def path_defs
  sample_env_def sample_info_def fresh_world_def sample_image_def sample_layer_def
  sample_library_def sample_world_def




text \<open>
  Claim C5. From every state in which the layer directory is present, the hook returns
  normally with the state as it was but for one printed line: the trace shows no
  engine build and no export, and no file is written, so nothing is extracted. And
  from any state, the layer directory after two invocations in succession is what it
  is after one, both when the second runs only after a normal return of the first and
  when it runs after the first whatever its outcome (with the same engine answers).
\<close>

theorem build_stage_layer_idempotent:
  "(is_dir (files w) LAYER_DIR \<longrightarrow>
      build_stage_layer env info part_list w =
        (Inr (), w\<lparr>trace := trace w @ [Print ''Using existing stage layer'']\<rparr>))
   \<and> files (snd (bindM (build_stage_layer env info part_list)
                      (\<lambda>_. build_stage_layer env info part_list) w)) LAYER_DIR
       = files (snd (build_stage_layer env info part_list w)) LAYER_DIR
   \<and> files (snd (build_stage_layer env info part_list
                      (snd (build_stage_layer env info part_list w)))) LAYER_DIR
       = files (snd (build_stage_layer env info part_list w)) LAYER_DIR"
proof -
  let ?b = "build_stage_layer env info part_list"
  have twice: "files (snd (?b (snd (?b w)))) LAYER_DIR = files (snd (?b w)) LAYER_DIR"
    by (rule build_stage_layer_twice_files)
  have "files (snd (bindM ?b (\<lambda>_. ?b) w)) LAYER_DIR = files (snd (?b w)) LAYER_DIR"
  proof (cases "?b w")
    case (Pair r w1)
    then show ?thesis using twice by (cases r) (simp_all add: bindM_def)
  qed
  with twice build_stage_layer_hit[of w env info part_list] show ?thesis by blast
qed

theorem build_stage_layer_idempotent_witness:
  "build_stage_layer sample_env sample_info [] sample_world
       = (Inr (), sample_world\<lparr>trace := [Print ''Using existing stage layer'']\<rparr>)
   \<and> files (snd (build_stage_layer sample_env sample_info []
                  (snd (build_stage_layer sample_env sample_info [] fresh_world)))) ''layer''
       = Some (DirN [(''etc'', DirM), (''etc/two'', Reg (Raw ''two''))])"
  using build_stage_layer_idempotent [of sample_world sample_env sample_info "[]"]
    build_stage_layer_idempotent [of fresh_world sample_env sample_info "[]"]
  by (simp add: stage_defs prog_defs)




end
